theory Spec2Isabelle
  imports Complex_Main
begin

section \<open>JavaScript strings\<close>

text \<open>
  Strings are lists of characters. The functions below are the \<^verbatim>\<open>String.prototype\<close>
  methods the two programs call: \<^verbatim>\<open>startsWith\<close>, \<^verbatim>\<open>endsWith\<close>, \<^verbatim>\<open>includes\<close>,
  \<^verbatim>\<open>toLowerCase\<close>, \<^verbatim>\<open>trim\<close>, and the global \<^verbatim>\<open>parseInt\<close>. Case mapping and white space
  are the ASCII ones; no letter of \<^verbatim>\<open>readme\<close> is the lower case of a character outside ASCII.
\<close>

definition startsWith :: "string \<Rightarrow> string \<Rightarrow> bool" where
  "startsWith s p = (take (length p) s = p)"

definition endsWith :: "string \<Rightarrow> string \<Rightarrow> bool" where
  "endsWith s p = (length p \<le> length s \<and> drop (length s - length p) s = p)"

fun includes_str :: "string \<Rightarrow> string \<Rightarrow> bool" where
  "includes_str [] sub = (sub = [])"
| "includes_str (c # cs) sub = (startsWith (c # cs) sub \<or> includes_str cs sub)"

definition charCode :: "char \<Rightarrow> nat" where
  "charCode c = of_char c"

definition lowerChar :: "char \<Rightarrow> char" where
  "lowerChar c =
     (case map_of (zip ''ABCDEFGHIJKLMNOPQRSTUVWXYZ'' ''abcdefghijklmnopqrstuvwxyz'') c of
        None \<Rightarrow> c
      | Some l \<Rightarrow> l)"

definition toLowerCase :: "string \<Rightarrow> string" where
  "toLowerCase s = map lowerChar s"

definition isSpace :: "char \<Rightarrow> bool" where
  "isSpace c = (charCode c = 32 \<or> (9 \<le> charCode c \<and> charCode c \<le> 13))"

definition trim :: "string \<Rightarrow> string" where
  "trim s = rev (dropWhile isSpace (rev (dropWhile isSpace s)))"

definition isDigit :: "char \<Rightarrow> bool" where
  "isDigit c = (48 \<le> charCode c \<and> charCode c \<le> 57)"


text \<open>
  \<^verbatim>\<open>parseInt(s)\<close> with no radix: leading white space and one sign are skipped, a
  \<^verbatim>\<open>0x\<close> prefix selects base 16, and the longest run of digits is read. No digit at all
  is \<^verbatim>\<open>NaN\<close>, here \<open>None\<close>.
\<close>

definition hexDigit :: "char \<Rightarrow> nat option" where
  "hexDigit c =
     (if isDigit c then Some (charCode c - 48)
      else if 97 \<le> charCode c \<and> charCode c \<le> 102 then Some (charCode c - 87)
      else if 65 \<le> charCode c \<and> charCode c \<le> 70 then Some (charCode c - 55)
      else None)"

definition digitsValue :: "nat \<Rightarrow> string \<Rightarrow> nat" where
  "digitsValue radix ds = foldl (\<lambda>acc c. acc * radix + the (hexDigit c)) 0 ds"

definition parseDigits :: "nat \<Rightarrow> string \<Rightarrow> nat option" where
  "parseDigits radix s =
     (let ds = takeWhile (\<lambda>c. case hexDigit c of None \<Rightarrow> False | Some d \<Rightarrow> d < radix) s
      in if ds = [] then None else Some (digitsValue radix ds))"

definition parseUnsigned :: "string \<Rightarrow> nat option" where
  "parseUnsigned s =
     (if startsWith s ''0x'' \<or> startsWith s ''0X'' then parseDigits 16 (drop 2 s)
      else parseDigits 10 s)"

definition parseInt :: "string \<Rightarrow> int option" where
  "parseInt s =
     (case dropWhile isSpace s of
        [] \<Rightarrow> None
      | c # cs \<Rightarrow>
          if c = CHR ''-'' then map_option (\<lambda>n. - int n) (parseUnsigned cs)
          else if c = CHR ''+'' then map_option int (parseUnsigned cs)
          else map_option int (parseUnsigned (c # cs)))"

fun string_of_nat :: "nat \<Rightarrow> string" where
  "string_of_nat n =
     (if n < 10 then [''0123456789'' ! n]
      else string_of_nat (n div 10) @ [''0123456789'' ! (n mod 10)])"

section \<open>The POSIX \<^verbatim>\<open>path\<close> module\<close>

text \<open>
  Node's \<^verbatim>\<open>path.posix\<close> functions, on the segments of a path: \<^verbatim>\<open>normalize\<close> drops empty
  and \<^verbatim>\<open>.\<close> segments and resolves \<^verbatim>\<open>..\<close> against the segment before it, \<^verbatim>\<open>join\<close>
  normalises the non-empty arguments joined by \<^verbatim>\<open>/\<close>, \<^verbatim>\<open>resolve\<close> and \<^verbatim>\<open>relative\<close>
  work on absolute paths (a relative path is taken from the working directory).
\<close>

fun splitOn :: "char \<Rightarrow> string \<Rightarrow> string list" where
  "splitOn c [] = [[]]"
| "splitOn c (x # xs) =
     (if x = c then [] # splitOn c xs
      else (case splitOn c xs of [] \<Rightarrow> [[x]] | y # ys \<Rightarrow> (x # y) # ys))"

fun intercalate :: "string \<Rightarrow> string list \<Rightarrow> string" where
  "intercalate s [] = []"
| "intercalate s [x] = x"
| "intercalate s (x # y # ys) = x @ s @ intercalate s (y # ys)"

fun normalizeString :: "bool \<Rightarrow> string list \<Rightarrow> string list \<Rightarrow> string list" where
  "normalizeString allowAboveRoot res [] = res"
| "normalizeString allowAboveRoot res (s # ss) =
     (if s = [] \<or> s = ''.'' then normalizeString allowAboveRoot res ss
      else if s = ''..'' then
        (if res \<noteq> [] \<and> last res \<noteq> ''..'' then normalizeString allowAboveRoot (butlast res) ss
         else if allowAboveRoot then normalizeString allowAboveRoot (res @ [''..'']) ss
         else normalizeString allowAboveRoot res ss)
      else normalizeString allowAboveRoot (res @ [s]) ss)"

definition normalize :: "string \<Rightarrow> string" where
  "normalize p =
     (if p = [] then ''.''
      else
        let isAbsolute = (hd p = CHR ''/'');
            trailingSeparator = (last p = CHR ''/'');
            r = intercalate ''/'' (normalizeString (\<not> isAbsolute) [] (splitOn CHR ''/'' p))
        in if r = [] then (if isAbsolute then ''/'' else if trailingSeparator then ''./'' else ''.'')
           else (if isAbsolute then ''/'' else []) @ r @ (if trailingSeparator then ''/'' else []))"

definition join :: "string list \<Rightarrow> string" where
  "join args =
     (let parts = filter (\<lambda>a. a \<noteq> []) args
      in if parts = [] then ''.'' else normalize (intercalate ''/'' parts))"

definition stripTrailingSlashes :: "string \<Rightarrow> string" where
  "stripTrailingSlashes p = rev (dropWhile (\<lambda>c. c = CHR ''/'') (rev p))"


text \<open>
  \<^verbatim>\<open>extname\<close> is the part of the last segment from its last dot, unless that dot is the
  first character or the segment is \<^verbatim>\<open>..\<close>. \<^verbatim>\<open>basename\<close> is the last segment, without
  the suffix when a suffix is given, the segment ends with it and is longer; the empty
  suffix stands for the call with one argument.
\<close>

definition lastSegment :: "string \<Rightarrow> string" where
  "lastSegment p = rev (takeWhile (\<lambda>c. c \<noteq> CHR ''/'') (rev (stripTrailingSlashes p)))"

definition extname :: "string \<Rightarrow> string" where
  "extname p =
     (let seg = lastSegment p;
          afterDot = takeWhile (\<lambda>c. c \<noteq> CHR ''.'') (rev seg)
      in if CHR ''.'' \<notin> set seg then []
         else
           let startDot = length seg - length afterDot - 1
           in if startDot = 0 \<or> seg = ''..'' then [] else drop startDot seg)"

definition basename :: "string \<Rightarrow> string \<Rightarrow> string" where
  "basename p suffix =
     (let seg = lastSegment p
      in if suffix \<noteq> [] \<and> length suffix \<le> length p then
           (if suffix = p then []
            else if endsWith seg suffix \<and> seg \<noteq> suffix
              then take (length seg - length suffix) seg
            else seg)
         else seg)"

definition resolveSegments :: "string \<Rightarrow> string \<Rightarrow> string list" where
  "resolveSegments cwd p =
     normalizeString False []
       (splitOn CHR ''/'' (if startsWith p ''/'' then p else cwd @ ''/'' @ p))"

fun stripCommon :: "string list \<Rightarrow> string list \<Rightarrow> string list \<times> string list" where
  "stripCommon (x # xs) (y # ys) = (if x = y then stripCommon xs ys else (x # xs, y # ys))"
| "stripCommon xs ys = (xs, ys)"

definition relative :: "string \<Rightarrow> string \<Rightarrow> string \<Rightarrow> string" where
  "relative cwd from to =
     (let (f, t) = stripCommon (resolveSegments cwd from) (resolveSegments cwd to)
      in intercalate ''/'' (replicate (length f) ''..'' @ t))"

section \<open>JavaScript numbers\<close>

text \<open>
  A JavaScript number is an IEEE 754 double. A finite double is modelled by the real number
  it denotes: an integer of at most 53 bits times a power of two, the exponent of a normal
  double being that of its leading bit and the exponent of a subnormal one \<open>emin\<close>. An
  arithmetic operation yields the exact result rounded to the nearest double, a tie going to
  the double with the even significand: \<open>fl x\<close> is that double, a multiple of the unit in
  the last place \<open>ulp x\<close> of the binade of \<open>x\<close>. Results of magnitude \<open>2 ^ 1024\<close> and
  above, which are \<^verbatim>\<open>Infinity\<close> in JavaScript, are far from every instant and every
  difference of instants and are not modelled.
\<close>

definition pow2 :: "int \<Rightarrow> real" where
  "pow2 k = 2 powi k"

text \<open>The exponent of the leading bit of a positive real: \<open>2 ^ ilog2 x \<le> x < 2 ^ (ilog2 x + 1)\<close>.\<close>

function ilog2 :: "real \<Rightarrow> int" where
  "ilog2 x =
     (if x \<le> 0 then 0
      else if x < 1 then ilog2 (2 * x) - 1
      else if 2 \<le> x then ilog2 (x / 2) + 1
      else 0)"
  by pat_completeness auto
termination
proof (relation "measure (\<lambda>x. if 1 \<le> x then nat \<lfloor>x\<rfloor> else nat \<lfloor>1 / x\<rfloor> + 1)")
  show "wf (measure (\<lambda>x::real. if 1 \<le> x then nat \<lfloor>x\<rfloor> else nat \<lfloor>1 / x\<rfloor> + 1))" by simp
next
  fix x :: real
  assume pos: "\<not> x \<le> 0" and small: "x < 1"
  have inv: "1 < 1 / x" using pos small by simp
  then have f1: "1 \<le> \<lfloor>1 / x\<rfloor>" by linarith
  show "(2 * x, x) \<in> measure (\<lambda>x. if 1 \<le> x then nat \<lfloor>x\<rfloor> else nat \<lfloor>1 / x\<rfloor> + 1)"
  proof (cases "1 \<le> 2 * x")
    case True
    from small have "\<lfloor>2 * x\<rfloor> \<le> 1" by linarith
    with f1 have "nat \<lfloor>2 * x\<rfloor> < nat \<lfloor>1 / x\<rfloor> + 1" by linarith
    with True small show ?thesis by simp
  next
    case False
    define y where "y = 1 / x"
    from False pos have "2 < y" by (simp add: y_def field_simps)
    then have "\<lfloor>y / 2\<rfloor> < \<lfloor>y\<rfloor>" by linarith
    moreover have eq: "1 / (2 * x) = y / 2" by (simp add: y_def)
    ultimately have "\<lfloor>1 / (2 * x)\<rfloor> < \<lfloor>1 / x\<rfloor>" unfolding eq by (simp only: y_def)
    with f1 have "nat \<lfloor>1 / (2 * x)\<rfloor> + 1 < nat \<lfloor>1 / x\<rfloor> + 1" by linarith
    with False small show ?thesis by simp
  qed
next
  fix x :: real
  assume "\<not> x \<le> 0" and "\<not> x < 1" and big: "2 \<le> x"
  then have "\<lfloor>x / 2\<rfloor> < \<lfloor>x\<rfloor>" by linarith
  moreover from big have "0 < \<lfloor>x\<rfloor>" by linarith
  ultimately have "nat \<lfloor>x / 2\<rfloor> < nat \<lfloor>x\<rfloor>" by linarith
  with big show "(x / 2, x) \<in> measure (\<lambda>x. if 1 \<le> x then nat \<lfloor>x\<rfloor> else nat \<lfloor>1 / x\<rfloor> + 1)"
    by simp
qed

definition emin :: int where
  "emin = - 1022"

definition exponent :: "real \<Rightarrow> int" where
  "exponent x = (if \<bar>x\<bar> < pow2 emin then emin else ilog2 \<bar>x\<bar>)"

definition ulp :: "real \<Rightarrow> real" where
  "ulp x = pow2 (exponent x - 52)"

definition roundTiesToEven :: "real \<Rightarrow> int" where
  "roundTiesToEven m =
     (let f = \<lfloor>m\<rfloor>
      in if m - of_int f < 1 / 2 then f
         else if 1 / 2 < m - of_int f then f + 1
         else if even f then f else f + 1)"

definition fl :: "real \<Rightarrow> real" where
  "fl x = of_int (roundTiesToEven (x / ulp x)) * ulp x"

text \<open>The operators \<^verbatim>\<open>-\<close> and \<^verbatim>\<open>/\<close> on two doubles.\<close>

definition number_subtract :: "real \<Rightarrow> real \<Rightarrow> real" where
  "number_subtract x y = fl (x - y)"

definition number_divide :: "real \<Rightarrow> real \<Rightarrow> real" where
  "number_divide x y = fl (x / y)"

section \<open>The sync checker (\<^verbatim>\<open>examples/continuous-sync/sync-checker.js\<close>)\<close>

subsection \<open>The file system, the clock and version control\<close>

text \<open>
  The script reads a file tree, the working directory, the clock, and the output of
  \<^verbatim>\<open>git log -1 --format=%ct "<path>"\<close>. A node carries its \<^verbatim>\<open>mtimeMs\<close>; a directory lists
  its entries by name, as \<^verbatim>\<open>readdirSync\<close> returns them, and \<^verbatim>\<open>statSync\<close> of a listed entry
  is the node stored under that name; \<open>Special\<close> is a node that is neither a file nor a
  directory, and links are not modelled. An exception is a value \<open>Inl e\<close>.

  The operating system resolves a path one component after the other, from the root
  directory when the path starts with \<^verbatim>\<open>/\<close> and from the working directory otherwise. An
  empty component and \<^verbatim>\<open>.\<close> stay where they are, \<^verbatim>\<open>..\<close> goes to the parent (the root is
  its own parent), a name goes to the entry of that name. Every component, also an empty
  one after a trailing \<^verbatim>\<open>/\<close>, is taken from a directory: a path through a name that is not
  there fails with \<^verbatim>\<open>ENOENT\<close> and a path through a file with \<^verbatim>\<open>ENOTDIR\<close>, whatever
  follows. The empty path fails with \<^verbatim>\<open>ENOENT\<close>. The first argument of \<open>resolvePath\<close> is
  the path the error reports, the second the directories entered so far, innermost first.
\<close>

datatype js_error = ENOENT string | ENOTDIR string | TypeError string | LibraryError string

datatype fsnode = File real | Directory real "(string \<times> fsnode) list" | Special real

datatype exec_result = ExecFailed | ExecOutput string

record environment =
  fs_root :: fsnode
  cwd :: string
  git_log :: "string \<Rightarrow> exec_result"
  now :: string

fun mtimeMs :: "fsnode \<Rightarrow> real" where
  "mtimeMs (File m) = m"
| "mtimeMs (Directory m items) = m"
| "mtimeMs (Special m) = m"

fun resolvePath :: "string \<Rightarrow> fsnode list \<Rightarrow> string list \<Rightarrow> js_error + fsnode list" where
  "resolvePath p nodes [] = Inr nodes"
| "resolvePath p [] (s # ss) = Inl (ENOENT p)"
| "resolvePath p (File m # up) (s # ss) = Inl (ENOTDIR p)"
| "resolvePath p (Special m # up) (s # ss) = Inl (ENOTDIR p)"
| "resolvePath p (Directory m items # up) (s # ss) =
     (if s = [] \<or> s = ''.'' then resolvePath p (Directory m items # up) ss
      else if s = ''..'' then resolvePath p (if up = [] then [Directory m items] else up) ss
      else
        (case map_of items s of
           None \<Rightarrow> Inl (ENOENT p)
         | Some child \<Rightarrow> resolvePath p (child # Directory m items # up) ss))"

definition statSync :: "environment \<Rightarrow> string \<Rightarrow> js_error + fsnode" where
  "statSync env p =
     (if p = [] then Inl (ENOENT p)
      else
        (case resolvePath p [fs_root env]
                (splitOn CHR ''/'' (if startsWith p ''/'' then p else cwd env @ ''/'' @ p)) of
           Inl e \<Rightarrow> Inl e
         | Inr [] \<Rightarrow> Inl (ENOENT p)
         | Inr (node # up) \<Rightarrow> Inr node))"

text \<open>\<^verbatim>\<open>fs.existsSync\<close> is false whenever the path cannot be resolved.\<close>

definition existsSync :: "environment \<Rightarrow> string \<Rightarrow> bool" where
  "existsSync env p = (case statSync env p of Inl e \<Rightarrow> False | Inr node \<Rightarrow> True)"

subsection \<open>\<^verbatim>\<open>getLastModified\<close>\<close>

text \<open>
  \<^verbatim>\<open>parseInt\<close> gives the double nearest to the integer it reads, and \<^verbatim>\<open>NaN || 0\<close> is 0;
  the fallback divides the double \<^verbatim>\<open>mtimeMs\<close> by 1000.
\<close>

definition getLastModified :: "environment \<Rightarrow> string \<Rightarrow> js_error + real" where
  "getLastModified env filePath =
     (case git_log env filePath of
        ExecOutput out \<Rightarrow>
          (let timestamp = trim out
           in Inr (case parseInt timestamp of None \<Rightarrow> 0 | Some n \<Rightarrow> fl (real_of_int n)))
      | ExecFailed \<Rightarrow>
          (case statSync env filePath of
             Inl e \<Rightarrow> Inl e
           | Inr st \<Rightarrow> Inr (number_divide (mtimeMs st) 1000)))"

subsection \<open>\<^verbatim>\<open>findFiles\<close>\<close>

fun walk :: "string list \<Rightarrow> string \<Rightarrow> (string \<times> fsnode) list \<Rightarrow> string list" where
  "walk extensions directory [] = []"
| "walk extensions directory ((item, Directory m children) # items) =
     (if \<not> startsWith item ''.'' \<and> item \<noteq> ''node_modules''
      then walk extensions (join [directory, item]) children
      else [])
     @ walk extensions directory items"
| "walk extensions directory ((item, File m) # items) =
     (if list_ex (\<lambda>ext. endsWith item ext) extensions then [join [directory, item]] else [])
     @ walk extensions directory items"
| "walk extensions directory ((item, Special m) # items) = walk extensions directory items"

definition findFiles :: "environment \<Rightarrow> string \<Rightarrow> string list \<Rightarrow> js_error + string list" where
  "findFiles env dir extensions =
     (case statSync env dir of
        Inl e \<Rightarrow> Inl e
      | Inr (Directory m items) \<Rightarrow> Inr (walk extensions dir items)
      | Inr _ \<Rightarrow> Inl (ENOTDIR dir))"

subsection \<open>\<^verbatim>\<open>parseArgs\<close>\<close>

record config =
  docs :: "string option"
  source :: "string option"
  output_path :: "string option"

text \<open>\<^verbatim>\<open>s.replace(pat, rep)\<close> with a string pattern: the first occurrence is replaced.\<close>

fun replaceFirst :: "string \<Rightarrow> string \<Rightarrow> string \<Rightarrow> string" where
  "replaceFirst pat rep [] = (if pat = [] then rep else [])"
| "replaceFirst pat rep (c # cs) =
     (if startsWith (c # cs) pat then rep @ drop (length pat) (c # cs)
      else c # replaceFirst pat rep cs)"

definition setKey :: "string \<Rightarrow> string option \<Rightarrow> config \<Rightarrow> config" where
  "setKey key v c =
     (if key = ''docs'' then c\<lparr>docs := v\<rparr>
      else if key = ''source'' then c\<lparr>source := v\<rparr>
      else if key = ''output'' then c\<lparr>output_path := v\<rparr>
      else c)"

fun parseArgsLoop :: "string list \<Rightarrow> config \<Rightarrow> config" where
  "parseArgsLoop [] c = c"
| "parseArgsLoop [k] c = setKey (replaceFirst ''--'' [] k) None c"
| "parseArgsLoop (k # v # args) c = parseArgsLoop args (setKey (replaceFirst ''--'' [] k) (Some v) c)"

definition parseArgs :: "string list \<Rightarrow> config" where
  "parseArgs args =
     parseArgsLoop args
       \<lparr>docs = Some ''./docs'', source = Some ''./src'', output_path = Some ''./sync-report.json''\<rparr>"

subsection \<open>\<^verbatim>\<open>analyzeSync\<close>\<close>

datatype priority = High | Medium | Low

datatype sync_status = Synced | Outdated | Incomplete

record sync_summary =
  totalSourceFiles :: nat
  totalDocFiles :: nat
  outdatedDocs :: nat
  missingDocs :: nat
  upToDate :: nat

record outdated_entry =
  doc :: string
  doc_source :: string
  daysBehind :: int
  doc_priority :: priority

record missing_entry =
  missing_source :: string
  expectedDoc :: string
  missing_priority :: priority

record recommendation =
  rec_type :: string
  rec_message :: string
  rec_files :: "string list"

record sync_report =
  timestamp :: string
  status :: sync_status
  summary :: sync_summary
  outdated :: "outdated_entry list"
  missing :: "missing_entry list"
  recommendations :: "recommendation list"

text \<open>
  The two \<^verbatim>\<open>replace\<close> calls with an expression anchored at the end of the string:
  \<^verbatim>\<open>/\.mdx?$/\<close> to \<^verbatim>\<open>.ts\<close> and \<^verbatim>\<open>/\.[jt]sx?$/\<close> to \<^verbatim>\<open>.mdx\<close>.
\<close>

definition replaceDocExt :: "string \<Rightarrow> string" where
  "replaceDocExt s =
     (if endsWith s ''.mdx'' then take (length s - 4) s @ ''.ts''
      else if endsWith s ''.md'' then take (length s - 3) s @ ''.ts''
      else s)"

definition replaceSourceExt :: "string \<Rightarrow> string" where
  "replaceSourceExt s =
     (if endsWith s ''.jsx'' \<or> endsWith s ''.tsx'' then take (length s - 4) s @ ''.mdx''
      else if endsWith s ''.js'' \<or> endsWith s ''.ts'' then take (length s - 3) s @ ''.mdx''
      else s)"

definition sourceEquivalent :: "environment \<Rightarrow> string \<Rightarrow> string \<Rightarrow> string \<Rightarrow> string" where
  "sourceEquivalent env docsDir sourceDir docFile =
     join [sourceDir, replaceDocExt (relative (cwd env) docsDir docFile)]"

definition docEquivalent :: "environment \<Rightarrow> string \<Rightarrow> string \<Rightarrow> string \<Rightarrow> string" where
  "docEquivalent env docsDir sourceDir apiFile =
     join [docsDir, replaceSourceExt (relative (cwd env) sourceDir apiFile)]"

definition drift_priority :: "int \<Rightarrow> priority" where
  "drift_priority d = (if d > 7 then High else if d > 3 then Medium else Low)"

text \<open>The entry pushed for an outdated documentation file, \<open>days\<close> being \<^verbatim>\<open>daysBehind\<close>.\<close>

definition outdatedEntry ::
  "environment \<Rightarrow> string \<Rightarrow> string \<Rightarrow> string \<Rightarrow> int \<Rightarrow> outdated_entry" where
  "outdatedEntry env docsDir sourceDir docFile days =
     \<lparr>doc = relative (cwd env) docsDir docFile,
      doc_source = relative (cwd env) sourceDir (sourceEquivalent env docsDir sourceDir docFile),
      daysBehind = days,
      doc_priority = drift_priority days\<rparr>"

text \<open>The body of the first loop, for one documentation file.\<close>

definition checkDoc ::
  "environment \<Rightarrow> string \<Rightarrow> string \<Rightarrow> string \<Rightarrow> sync_report \<Rightarrow> js_error + sync_report" where
  "checkDoc env docsDir sourceDir docFile results =
     (let sourceEq = sourceEquivalent env docsDir sourceDir docFile
      in if existsSync env sourceEq then
           (case getLastModified env docFile of
              Inl e \<Rightarrow> Inl e
            | Inr docMod \<Rightarrow>
                (case getLastModified env sourceEq of
                   Inl e \<Rightarrow> Inl e
                 | Inr srcMod \<Rightarrow>
                     (let days = \<lfloor>number_divide (number_subtract srcMod docMod) 86400\<rfloor>
                      in if days > 0 then
                           Inr (results
                             \<lparr>outdated := outdated results @
                                [outdatedEntry env docsDir sourceDir docFile days],
                              summary := (summary results)
                                \<lparr>outdatedDocs := outdatedDocs (summary results) + 1\<rparr>\<rparr>)
                         else
                           Inr (results
                             \<lparr>summary := (summary results)
                                \<lparr>upToDate := upToDate (summary results) + 1\<rparr>\<rparr>))))
         else Inr results)"

fun checkDocs ::
  "environment \<Rightarrow> string \<Rightarrow> string \<Rightarrow> string list \<Rightarrow> sync_report \<Rightarrow> js_error + sync_report" where
  "checkDocs env docsDir sourceDir [] results = Inr results"
| "checkDocs env docsDir sourceDir (docFile # docFiles) results =
     (case checkDoc env docsDir sourceDir docFile results of
        Inl e \<Rightarrow> Inl e
      | Inr results' \<Rightarrow> checkDocs env docsDir sourceDir docFiles results')"

text \<open>The body of the second loop, for one source file under an API-like directory.\<close>

definition checkApiFile ::
  "environment \<Rightarrow> string \<Rightarrow> string \<Rightarrow> string \<Rightarrow> sync_report \<Rightarrow> sync_report" where
  "checkApiFile env docsDir sourceDir apiFile results =
     (let relativePath = relative (cwd env) sourceDir apiFile;
          docEq = docEquivalent env docsDir sourceDir apiFile
      in if \<not> existsSync env docEq then
           results
             \<lparr>missing := missing results @
                [\<lparr>missing_source = relativePath,
                  expectedDoc = relative (cwd env) docsDir docEq,
                  missing_priority = (if includes_str apiFile ''/api/'' then High else Medium)\<rparr>],
              summary := (summary results)
                \<lparr>missingDocs := missingDocs (summary results) + 1\<rparr>\<rparr>
         else results)"

definition isApiFile :: "string \<Rightarrow> bool" where
  "isApiFile f =
     (includes_str f ''/api/'' \<or> includes_str f ''/routes/'' \<or> includes_str f ''/components/'')"

definition recommend :: "sync_report \<Rightarrow> sync_report" where
  "recommend results =
     (let r1 =
        (if length (outdated results) > 0 then
           results
             \<lparr>status := Outdated,
              recommendations := recommendations results @
                [\<lparr>rec_type = ''update'',
                  rec_message = ''Update '' @ string_of_nat (length (outdated results))
                    @ '' outdated documentation file(s)'',
                  rec_files = map doc (take 5 (outdated results))\<rparr>]\<rparr>
         else results)
      in if length (missing r1) > 0 then
           r1\<lparr>status := Incomplete,
              recommendations := recommendations r1 @
                [\<lparr>rec_type = ''create'',
                  rec_message = ''Create documentation for '' @ string_of_nat (length (missing r1))
                    @ '' undocumented file(s)'',
                  rec_files = map expectedDoc (take 5 (missing r1))\<rparr>]\<rparr>
         else r1)"

definition analyzeSync :: "environment \<Rightarrow> config \<Rightarrow> js_error + sync_report" where
  "analyzeSync env c =
     (case source c of
        None \<Rightarrow> Inl (TypeError ''ERR_INVALID_ARG_TYPE'')
      | Some sourceDir \<Rightarrow>
          (case findFiles env sourceDir [''.ts'', ''.tsx'', ''.js'', ''.jsx'', ''.py''] of
             Inl e \<Rightarrow> Inl e
           | Inr sourceFiles \<Rightarrow>
               (case docs c of
                  None \<Rightarrow> Inl (TypeError ''ERR_INVALID_ARG_TYPE'')
                | Some docsDir \<Rightarrow>
                    (case findFiles env docsDir [''.md'', ''.mdx''] of
                       Inl e \<Rightarrow> Inl e
                     | Inr docFiles \<Rightarrow>
                         (let results =
                            \<lparr>timestamp = now env,
                             status = Synced,
                             summary =
                               \<lparr>totalSourceFiles = length sourceFiles,
                                totalDocFiles = length docFiles,
                                outdatedDocs = 0, missingDocs = 0, upToDate = 0\<rparr>,
                             outdated = [], missing = [], recommendations = []\<rparr>
                          in case checkDocs env docsDir sourceDir docFiles results of
                               Inl e \<Rightarrow> Inl e
                             | Inr results1 \<Rightarrow>
                                 Inr (recommend
                                   (fold (checkApiFile env docsDir sourceDir)
                                      (filter isApiFile sourceFiles) results1)))))))"

subsection \<open>\<^verbatim>\<open>main\<close>\<close>

text \<open>
  What a run leaves behind: how the process ended, what it wrote to standard error, and
  the report file it wrote, if any. \<^verbatim>\<open>fs.existsSync(undefined)\<close> is false, and a path
  function given \<^verbatim>\<open>undefined\<close> throws a \<^verbatim>\<open>TypeError\<close>. Creating the output directory and
  writing the file are taken to succeed.
\<close>

datatype process_end = Exit nat | Uncaught js_error

record run =
  ended :: process_end
  stderr :: "string list"
  written :: "(string \<times> sync_report) option"

definition existsSyncOpt :: "environment \<Rightarrow> string option \<Rightarrow> bool" where
  "existsSyncOpt env p = (case p of None \<Rightarrow> False | Some q \<Rightarrow> existsSync env q)"

definition template :: "string option \<Rightarrow> string" where
  "template v = (case v of None \<Rightarrow> ''undefined'' | Some s \<Rightarrow> s)"

definition main :: "environment \<Rightarrow> string list \<Rightarrow> run" where
  "main env argv =
     (let c = parseArgs argv
      in if \<not> existsSyncOpt env (docs c) then
           \<lparr>ended = Exit 1,
            stderr = [''Error: Docs path not found: '' @ template (docs c)],
            written = None\<rparr>
         else if \<not> existsSyncOpt env (source c) then
           \<lparr>ended = Exit 1,
            stderr = [''Error: Source path not found: '' @ template (source c)],
            written = None\<rparr>
         else
           (case analyzeSync env c of
              Inl e \<Rightarrow> \<lparr>ended = Uncaught e, stderr = [], written = None\<rparr>
            | Inr results \<Rightarrow>
                (case output_path c of
                   None \<Rightarrow>
                     \<lparr>ended = Uncaught (TypeError ''ERR_INVALID_ARG_TYPE''),
                      stderr = [], written = None\<rparr>
                 | Some out \<Rightarrow>
                     \<lparr>ended = Exit (if status results = Synced then 0 else 1),
                      stderr = [],
                      written = Some (out, results)\<rparr>)))"

section \<open>The analyzer (\<^verbatim>\<open>src/analyzers/codebase-analyzer.ts\<close>)\<close>

subsection \<open>The host\<close>

text \<open>
  The server reaches the file tree through three packages: \<^verbatim>\<open>glob\<close> (pattern, working
  directory, ignore list), \<^verbatim>\<open>fs-extra\<close> (\<^verbatim>\<open>pathExists\<close>, \<^verbatim>\<open>readJson\<close>, \<^verbatim>\<open>readFile\<close>) and
  \<^verbatim>\<open>gray-matter\<close> (the parsed front matter of a text). Their answers are the fields of the
  host; a rejected promise is \<open>Inl e\<close>. Of \<^verbatim>\<open>package.json\<close> the host gives the fields the
  analyzer reads, \<open>pkg_repository\<close> being \<^verbatim>\<open>pkg.repository?.url || pkg.repository\<close>.
\<close>

record package_json =
  pkg_name :: "string option"
  pkg_version :: "string option"
  pkg_description :: "string option"
  pkg_repository :: "string option"
  pkg_author :: "string option"
  dependencies :: "(string \<times> string) list"
  devDependencies :: "(string \<times> string) list"

datatype yaml_value = YNull | YBool bool | YNum real | YStr string | YOther

record host =
  glob :: "string \<Rightarrow> string \<Rightarrow> string list \<Rightarrow> js_error + string list"
  pathExists :: "string \<Rightarrow> bool"
  readJson :: "string \<Rightarrow> js_error + package_json"
  readFile :: "string \<Rightarrow> js_error + string"
  matter :: "string \<Rightarrow> js_error + (string \<rightharpoonup> yaml_value)"

subsection \<open>The analysis result\<close>

record analysis_options =
  includePatterns :: "string list option"
  excludePatterns :: "string list option"
  depth :: string

record file_node =
  fn_path :: string
  fn_name :: string
  fn_type :: string
  fn_language :: "string option"

text \<open>\<open>directories\<close> is always the empty array: no \<^verbatim>\<open>DirectoryNode\<close> is ever built.\<close>

record project_structure =
  root :: string
  directories :: "string list"
  files :: "file_node list"
  languages :: "string list"
  frameworks :: "string list"

record api_definition =
  api_name :: string
  api_type :: string
  api_file :: string
  api_line :: nat
  signature :: string
  api_description :: "string option"

record component =
  comp_name :: string
  comp_type :: string
  comp_file :: string

record documentation_need =
  need_type :: string
  need_file :: string
  need_item :: string
  need_priority :: priority
  suggestion :: string

record navigation_group =
  group :: string
  pages :: "string list"

record project_metadata =
  meta_name :: string
  meta_version :: "string option"
  meta_description :: "string option"
  meta_repository :: "string option"
  meta_author :: "string option"

record codebase_analysis =
  proj_structure :: project_structure
  apis :: "api_definition list"
  components :: "component list"
  documentation_needs :: "documentation_need list"
  suggested_navigation :: "navigation_group list"
  metadata :: project_metadata

subsection \<open>\<^verbatim>\<open>discoverFiles\<close>\<close>

text \<open>\<^verbatim>\<open>[...new Set(xs)]\<close>: the elements of \<open>xs\<close> in the order of their first occurrence.\<close>

fun uniq :: "'a list \<Rightarrow> 'a list \<Rightarrow> 'a list" where
  "uniq seen [] = []"
| "uniq seen (x # xs) = (if x \<in> set seen then uniq seen xs else x # uniq (x # seen) xs)"

definition defaultPatterns :: "string list" where
  "defaultPatterns =
     [''**/*.ts'', ''**/*.tsx'', ''**/*.js'', ''**/*.jsx'', ''**/*.py'', ''**/*.go'',
      ''**/*.rs'', ''**/*.java'', ''**/*.md'', ''**/*.mdx'']"

fun globAll ::
  "host \<Rightarrow> string \<Rightarrow> string list \<Rightarrow> string list \<Rightarrow> string list \<Rightarrow> js_error + string list" where
  "globAll h rootPath ignore [] allFiles = Inr allFiles"
| "globAll h rootPath ignore (pattern # patterns) allFiles =
     (case glob h pattern rootPath ignore of
        Inl e \<Rightarrow> Inl e
      | Inr matched \<Rightarrow> globAll h rootPath ignore patterns (allFiles @ matched))"

definition discoverFiles ::
  "host \<Rightarrow> string \<Rightarrow> string list option \<Rightarrow> string list \<Rightarrow> js_error + string list" where
  "discoverFiles h rootPath includes excludes =
     (let patterns = (case includes of None \<Rightarrow> defaultPatterns | Some ps \<Rightarrow> ps)
      in case globAll h rootPath excludes patterns [] of
           Inl e \<Rightarrow> Inl e
         | Inr allFiles \<Rightarrow> Inr (uniq [] allFiles))"

subsection \<open>\<^verbatim>\<open>buildStructure\<close> and \<^verbatim>\<open>detectLanguage\<close>\<close>

definition detectLanguage :: "string \<Rightarrow> string option" where
  "detectLanguage ext =
     map_of
       [(''.ts'', ''TypeScript''), (''.tsx'', ''TypeScript''), (''.js'', ''JavaScript''),
        (''.jsx'', ''JavaScript''), (''.py'', ''Python''), (''.go'', ''Go''),
        (''.rs'', ''Rust''), (''.java'', ''Java'')]
       ext"

definition fileNode :: "string \<Rightarrow> file_node" where
  "fileNode f =
     \<lparr>fn_path = f, fn_name = basename f [], fn_type = extname f,
      fn_language = detectLanguage (extname f)\<rparr>"

text \<open>\<^verbatim>\<open>deps.x\<close> of \<^verbatim>\<open>{...pkg.dependencies, ...pkg.devDependencies}\<close>, as a truth value.\<close>

definition hasDep :: "package_json \<Rightarrow> string \<Rightarrow> bool" where
  "hasDep pkg d =
     (case map_of (devDependencies pkg) d of
        Some v \<Rightarrow> v \<noteq> []
      | None \<Rightarrow> (case map_of (dependencies pkg) d of Some v \<Rightarrow> v \<noteq> [] | None \<Rightarrow> False))"

definition detectFrameworks :: "package_json \<Rightarrow> string list" where
  "detectFrameworks pkg =
     map snd (filter (\<lambda>(d, fw). hasDep pkg d)
       [(''react'', ''React''), (''next'', ''Next.js''), (''vue'', ''Vue''),
        (''express'', ''Express''), (''fastapi'', ''FastAPI'')])"

definition buildStructure :: "host \<Rightarrow> string \<Rightarrow> string list \<Rightarrow> js_error + project_structure" where
  "buildStructure h rootPath fs =
     (let fileNodes = map fileNode fs;
          langs = uniq [] (List.map_filter (\<lambda>f. detectLanguage (extname f)) fs);
          packageJsonPath = join [rootPath, ''package.json'']
      in if pathExists h packageJsonPath then
           (case readJson h packageJsonPath of
              Inl e \<Rightarrow> Inl e
            | Inr pkg \<Rightarrow>
                Inr \<lparr>root = rootPath, directories = [], files = fileNodes,
                     languages = langs, frameworks = detectFrameworks pkg\<rparr>)
         else
           Inr \<lparr>root = rootPath, directories = [], files = fileNodes,
                languages = langs, frameworks = []\<rparr>)"

subsection \<open>\<^verbatim>\<open>extractAPIs\<close> and \<^verbatim>\<open>extractComponents\<close>\<close>

definition isApiCandidate :: "string \<Rightarrow> bool" where
  "isApiCandidate f =
     (includes_str f ''api'' \<or> includes_str f ''route'' \<or> includes_str f ''endpoint''
      \<or> endsWith f ''.ts'' \<or> endsWith f ''.py'')"

definition apiOf :: "string \<Rightarrow> api_definition" where
  "apiOf f =
     \<lparr>api_name = basename f (extname f), api_type = ''endpoint'', api_file = f, api_line = 1,
      signature = ''function()'', api_description = Some (''API from '' @ f)\<rparr>"

definition extractAPIs :: "string list \<Rightarrow> string \<Rightarrow> api_definition list" where
  "extractAPIs fs dep =
     map apiOf (take (if dep = ''quick'' then 10 else 100) (filter isApiCandidate fs))"

definition isComponentFile :: "string \<Rightarrow> bool" where
  "isComponentFile f = (endsWith f ''.tsx'' \<or> endsWith f ''.jsx'' \<or> includes_str f ''component'')"

definition componentOf :: "string \<Rightarrow> component" where
  "componentOf f = \<lparr>comp_name = basename f (extname f), comp_type = ''react'', comp_file = f\<rparr>"

definition extractComponents :: "string list \<Rightarrow> component list" where
  "extractComponents fs = map componentOf (filter isComponentFile fs)"

subsection \<open>\<^verbatim>\<open>analyzeDocumentationNeeds\<close>\<close>

text \<open>\<^verbatim>\<open>!api.description\<close>: the description is undefined or the empty string.\<close>

definition noDescription :: "api_definition \<Rightarrow> bool" where
  "noDescription api = (case api_description api of None \<Rightarrow> True | Some d \<Rightarrow> d = [])"

definition readmeNeed :: documentation_need where
  "readmeNeed =
     \<lparr>need_type = ''missing'', need_file = ''README.md'', need_item = ''Project README'',
      need_priority = High, suggestion = ''Create comprehensive project overview''\<rparr>"

definition apiNeed :: "api_definition \<Rightarrow> documentation_need" where
  "apiNeed api =
     \<lparr>need_type = ''missing'', need_file = api_file api, need_item = api_name api,
      need_priority = Medium, suggestion = ''Add API documentation for '' @ api_name api\<rparr>"

definition analyzeDocumentationNeeds ::
  "string list \<Rightarrow> api_definition list \<Rightarrow> component list \<Rightarrow> documentation_need list" where
  "analyzeDocumentationNeeds fs apiList cs =
     (let hasReadme = list_ex (\<lambda>f. includes_str (toLowerCase f) ''readme'') fs
      in (if \<not> hasReadme then [readmeNeed] else [])
         @ map apiNeed (filter noDescription apiList))"

subsection \<open>\<^verbatim>\<open>generateNavigation\<close>, \<^verbatim>\<open>extractMetadata\<close> and \<^verbatim>\<open>analyze\<close>\<close>

definition generateNavigation :: "project_structure \<Rightarrow> navigation_group list" where
  "generateNavigation st =
     [\<lparr>group = ''Getting Started'', pages = [''introduction'', ''quickstart'', ''installation'']\<rparr>,
      \<lparr>group = ''API Reference'',
       pages = [''api/overview'', ''api/authentication'', ''api/endpoints'']\<rparr>]
     @ (if length (frameworks st) > 0 then
          [\<lparr>group = ''Guides'',
            pages = [''guides/overview'', ''guides/examples'', ''guides/best-practices'']\<rparr>]
        else [])"

definition truthyName :: "string option \<Rightarrow> string \<Rightarrow> string" where
  "truthyName n d = (case n of None \<Rightarrow> d | Some s \<Rightarrow> (if s = [] then d else s))"

definition extractMetadata :: "host \<Rightarrow> string \<Rightarrow> js_error + project_metadata" where
  "extractMetadata h rootPath =
     (let m0 = \<lparr>meta_name = basename rootPath [], meta_version = None, meta_description = None,
                meta_repository = None, meta_author = None\<rparr>;
          packageJsonPath = join [rootPath, ''package.json''];
          pyprojectPath = join [rootPath, ''pyproject.toml''];
          py = (\<lambda>m. if pathExists h pyprojectPath then m\<lparr>meta_name := basename rootPath []\<rparr> else m)
      in if pathExists h packageJsonPath then
           (case readJson h packageJsonPath of
              Inl e \<Rightarrow> Inl e
            | Inr pkg \<Rightarrow>
                Inr (py \<lparr>meta_name = truthyName (pkg_name pkg) (meta_name m0),
                         meta_version = pkg_version pkg,
                         meta_description = pkg_description pkg,
                         meta_repository = pkg_repository pkg,
                         meta_author = pkg_author pkg\<rparr>))
         else Inr (py m0))"

definition defaultExcludes :: "string list" where
  "defaultExcludes =
     [''**/node_modules/**'', ''**/dist/**'', ''**/build/**'', ''**/.git/**'', ''**/venv/**'',
      ''**/__pycache__/**'', ''**/*.min.js'', ''**/.next/**'']"

definition analyze :: "host \<Rightarrow> string \<Rightarrow> analysis_options \<Rightarrow> js_error + codebase_analysis" where
  "analyze h rootPath options =
     (let excludes =
            defaultExcludes @ (case excludePatterns options of None \<Rightarrow> [] | Some ps \<Rightarrow> ps)
      in case discoverFiles h rootPath (includePatterns options) excludes of
           Inl e \<Rightarrow> Inl e
         | Inr fs \<Rightarrow>
             (case buildStructure h rootPath fs of
                Inl e \<Rightarrow> Inl e
              | Inr st \<Rightarrow>
                  (let apiList = extractAPIs fs (depth options);
                       cs = extractComponents fs;
                       needs = analyzeDocumentationNeeds fs apiList cs;
                       nav = generateNavigation st
                   in case extractMetadata h rootPath of
                        Inl e \<Rightarrow> Inl e
                      | Inr md \<Rightarrow>
                          Inr \<lparr>proj_structure = st, apis = apiList, components = cs,
                               documentation_needs = needs, suggested_navigation = nav,
                               metadata = md\<rparr>)))"

subsection \<open>\<^verbatim>\<open>syncWithSource\<close>\<close>

record sync_options =
  autoUpdate :: bool

record sync_result =
  result_status :: sync_status
  result_outdated :: "string list"
  updated :: "string list"
  suggestions :: "string list"

text \<open>The method logs a line and returns the object below; it asks nothing of its host.\<close>

definition syncWithSource :: "host \<Rightarrow> string \<Rightarrow> string \<Rightarrow> sync_options \<Rightarrow> sync_result" where
  "syncWithSource h docsPath sourcePath options =
     \<lparr>result_status = Synced, result_outdated = [], updated = [], suggestions = []\<rparr>"

section \<open>The validator (\<^verbatim>\<open>DocumentationValidator\<close>)\<close>







subsection \<open>\<^verbatim>\<open>validateFrontmatter\<close>\<close>





subsection \<open>\<^verbatim>\<open>validateLinks\<close>\<close>












subsection \<open>\<^verbatim>\<open>validateCodeExamples\<close>\<close>









subsection \<open>\<^verbatim>\<open>checkCommonIssues\<close>\<close>




subsection \<open>\<^verbatim>\<open>validate\<close>\<close>





section \<open>Example runs\<close>

text \<open>
  A host whose only project, \<^verbatim>\<open>/proj\<close>, holds one TypeScript file under \<^verbatim>\<open>src/api\<close> and one
  component, no \<^verbatim>\<open>package.json\<close> and no README. No other path exists, and a pattern
  matches nothing under a directory that does not exist.
\<close>

definition exampleHost :: host where
  "exampleHost =
     \<lparr>glob = (\<lambda>pattern dir ignore.
         if dir = ''/proj'' \<and> pattern = ''**/*.ts'' then Inr [''src/api/users.ts'']
         else if dir = ''/proj'' \<and> pattern = ''**/*.tsx'' then Inr [''src/Button.tsx'']
         else Inr []),
      pathExists = (\<lambda>p. p \<in> set [''/proj'', ''/proj/src'', ''/proj/src/api'',
         ''/proj/src/api/users.ts'', ''/proj/src/Button.tsx'']),
      readJson = (\<lambda>p. Inl (ENOENT p)),
      readFile = (\<lambda>p. Inl (ENOENT p)),
      matter = (\<lambda>t. Inr Map.empty)\<rparr>"

definition exampleOptions :: analysis_options where
  "exampleOptions = \<lparr>includePatterns = None, excludePatterns = None, depth = ''standard''\<rparr>"

text \<open>
  Version control that knows the commit time of the listed paths and fails on every other
  path; \<^verbatim>\<open>git\<close> ends its output with a line feed.
\<close>

definition gitTimes :: "(string \<times> string) list \<Rightarrow> string \<Rightarrow> exec_result" where
  "gitTimes table p =
     (case map_of table p of None \<Rightarrow> ExecFailed | Some t \<Rightarrow> ExecOutput (t @ [CHR 0x0A]))"

text \<open>
  Three documentation files whose sources are one second newer, equally old, and exactly
  one day newer.
\<close>

definition boundaryEnv :: environment where
  "boundaryEnv =
     \<lparr>fs_root = Directory 0 [(''repo'', Directory 0
         [(''docs'', Directory 0
            [(''second.md'', File 0), (''same.md'', File 0), (''day.md'', File 0)]),
          (''src'', Directory 0
            [(''second.ts'', File 0), (''same.ts'', File 0), (''day.ts'', File 0)])])],
      cwd = ''/repo'',
      git_log = gitTimes
         [(''docs/second.md'', ''1000000''), (''src/second.ts'', ''1000001''),
          (''docs/same.md'', ''1000000''), (''src/same.ts'', ''1000000''),
          (''docs/day.md'', ''1000000''), (''src/day.ts'', ''1086400'')],
      now = ''2026-01-01T00:00:00.000Z''\<rparr>"


text \<open>
  No repository: \<^verbatim>\<open>src/api/users.ts\<close> and \<^verbatim>\<open>src/api/orders.ts\<close> modified on day 10,
  \<^verbatim>\<open>docs/api/users.mdx\<close> on day 2, no page for the orders.
\<close>

definition scenarioEnv :: environment where
  "scenarioEnv =
     \<lparr>fs_root = Directory 0 [(''repo'', Directory 0
         [(''src'', Directory 0 [(''api'', Directory 0
            [(''users.ts'', File 864000000), (''orders.ts'', File 864000000)])]),
          (''docs'', Directory 0 [(''api'', Directory 0 [(''users.mdx'', File 172800000)])])])],
      cwd = ''/repo'',
      git_log = (\<lambda>p. ExecFailed),
      now = ''2026-01-01T00:00:00.000Z''\<rparr>"

text \<open>
  The same tree inside a repository in which \<^verbatim>\<open>docs/api/users.mdx\<close> is not yet tracked:
  for that path \<^verbatim>\<open>git log\<close> prints nothing and exits with 0.
\<close>

definition untrackedEnv :: environment where
  "untrackedEnv = scenarioEnv\<lparr>git_log :=
     (\<lambda>p. if p = ''docs/api/users.mdx'' then ExecOutput [] else ExecOutput ''864000'')\<rparr>"

text \<open>
  No repository, and modification times with milliseconds: \<^verbatim>\<open>docs/one.md\<close> and
  \<^verbatim>\<open>docs/eight.md\<close> were modified at 1073679404633 milliseconds, \<^verbatim>\<open>src/one.ts\<close> exactly one
  day and \<^verbatim>\<open>src/eight.ts\<close> exactly eight days later.
\<close>

definition mtimeEnv :: environment where
  "mtimeEnv =
     \<lparr>fs_root = Directory 0 [(''repo'', Directory 0
         [(''docs'', Directory 0
            [(''one.md'', File 1073679404633), (''eight.md'', File 1073679404633)]),
          (''src'', Directory 0
            [(''one.ts'', File 1073765804633), (''eight.ts'', File 1074370604633)])])],
      cwd = ''/repo'',
      git_log = (\<lambda>p. ExecFailed),
      now = ''2026-01-01T00:00:00.000Z''\<rparr>"








section \<open>Auxiliary notions\<close>

text \<open>
  A documentation file with an existing source counterpart is \<open>drifted\<close> when the
  difference of the two instants, as the script computes it, is at least 86400 seconds,
  and \<open>fresh\<close> when it is less.
\<close>

definition drifted :: "environment \<Rightarrow> string \<Rightarrow> string \<Rightarrow> string \<Rightarrow> bool" where
  "drifted env dd sd f \<longleftrightarrow>
     existsSync env (sourceEquivalent env dd sd f) \<and>
     (\<exists>d s. getLastModified env f = Inr d \<and>
            getLastModified env (sourceEquivalent env dd sd f) = Inr s \<and>
            86400 \<le> number_subtract s d)"

definition fresh :: "environment \<Rightarrow> string \<Rightarrow> string \<Rightarrow> string \<Rightarrow> bool" where
  "fresh env dd sd f \<longleftrightarrow>
     existsSync env (sourceEquivalent env dd sd f) \<and>
     (\<exists>d s. getLastModified env f = Inr d \<and>
            getLastModified env (sourceEquivalent env dd sd f) = Inr s \<and>
            number_subtract s d < 86400)"





declare string_of_nat.simps [simp del]

declare ilog2.simps [simp del]

lemmas path_defs = join_def normalize_def relative_def resolveSegments_def startsWith_def
  endsWith_def

lemmas fs_defs = statSync_def existsSync_def findFiles_def startsWith_def

lemmas parse_defs = trim_def isSpace_def charCode_def parseInt_def parseUnsigned_def
  parseDigits_def digitsValue_def hexDigit_def isDigit_def

section \<open>The analyzer: extracted entries and documentation needs\<close>

lemma extractAPIs_files: "set (map api_file (extractAPIs fs d)) \<subseteq> set fs"
proof -
  have "map api_file (extractAPIs fs d)
          = take (if d = ''quick'' then 10 else 100) (filter isApiCandidate fs)"
    by (simp add: extractAPIs_def apiOf_def comp_def)
  moreover have "set (take (if d = ''quick'' then 10 else 100) (filter isApiCandidate fs))
          \<subseteq> set (filter isApiCandidate fs)"
    by (rule set_take_subset)
  ultimately show ?thesis by auto
qed

lemma extractComponents_files: "set (map comp_file (extractComponents fs)) \<subseteq> set fs"
  by (auto simp: extractComponents_def componentOf_def)

lemma buildStructure_paths:
  "buildStructure h rootPath fs = Inr st \<Longrightarrow> map fn_path (files st) = fs"
  by (auto simp: buildStructure_def Let_def fileNode_def comp_def
      split: if_splits sum.splits)

lemma analyze_Inr:
  assumes "analyze h rootPath options = Inr a"
  obtains fs st md where
    "discoverFiles h rootPath (includePatterns options)
       (defaultExcludes @ (case excludePatterns options of None \<Rightarrow> [] | Some ps \<Rightarrow> ps)) = Inr fs"
    "buildStructure h rootPath fs = Inr st"
    "extractMetadata h rootPath = Inr md"
    "a = \<lparr>proj_structure = st, apis = extractAPIs fs (depth options),
          components = extractComponents fs,
          documentation_needs =
            analyzeDocumentationNeeds fs (extractAPIs fs (depth options)) (extractComponents fs),
          suggested_navigation = generateNavigation st, metadata = md\<rparr>"
  using assms by (auto simp: analyze_def Let_def split: sum.splits)

lemma example_discover:
  "discoverFiles exampleHost ''/proj'' None ex = Inr [''src/api/users.ts'', ''src/Button.tsx'']"
  by (simp add: discoverFiles_def defaultPatterns_def exampleHost_def)

lemma example_run:
  "\<exists>a. analyze exampleHost ''/proj'' exampleOptions = Inr a
     \<and> map api_file (apis a) = [''src/api/users.ts'']
     \<and> map comp_file (components a) = [''src/Button.tsx'']
     \<and> map fn_path (files (proj_structure a)) = [''src/api/users.ts'', ''src/Button.tsx'']"
  apply (simp add: analyze_def exampleOptions_def example_discover Let_def)
  apply (simp add: buildStructure_def extractMetadata_def exampleHost_def Let_def fileNode_def
      path_defs)
  apply (simp add: extractAPIs_def extractComponents_def isApiCandidate_def isComponentFile_def
      apiOf_def componentOf_def startsWith_def endsWith_def)
  done

text \<open>
  Claim C9. Every API definition and every component of a returned analysis names a file
  of the list that \<^verbatim>\<open>discoverFiles\<close> returned in the same run; that list is also the list of
  paths of \<^verbatim>\<open>structure.files\<close>.
\<close>

theorem analysis_entries_from_discovered_files:
  assumes "analyze h rootPath options = Inr a"
  shows "\<exists>fs. discoverFiles h rootPath (includePatterns options)
            (defaultExcludes @ (case excludePatterns options of None \<Rightarrow> [] | Some ps \<Rightarrow> ps))
            = Inr fs
          \<and> map fn_path (files (proj_structure a)) = fs
          \<and> (\<forall>api \<in> set (apis a). api_file api \<in> set fs)
          \<and> (\<forall>c \<in> set (components a). comp_file c \<in> set fs)"
proof -
  from assms obtain fs st md where
    d: "discoverFiles h rootPath (includePatterns options)
       (defaultExcludes @ (case excludePatterns options of None \<Rightarrow> [] | Some ps \<Rightarrow> ps)) = Inr fs"
    and b: "buildStructure h rootPath fs = Inr st"
    and a: "a = \<lparr>proj_structure = st, apis = extractAPIs fs (depth options),
          components = extractComponents fs,
          documentation_needs =
            analyzeDocumentationNeeds fs (extractAPIs fs (depth options)) (extractComponents fs),
          suggested_navigation = generateNavigation st, metadata = md\<rparr>"
    by (rule analyze_Inr)
  have "map fn_path (files (proj_structure a)) = fs"
    using a buildStructure_paths [OF b] by simp
  moreover have "\<forall>api \<in> set (apis a). api_file api \<in> set fs"
    using a extractAPIs_files [of fs "depth options"] by auto
  moreover have "\<forall>c \<in> set (components a). comp_file c \<in> set fs"
    using a extractComponents_files [of fs] by auto
  ultimately show ?thesis using d by blast
qed

theorem analysis_entries_witness:
  "\<exists>a. analyze exampleHost ''/proj'' exampleOptions = Inr a
     \<and> map api_file (apis a) = [''src/api/users.ts'']
     \<and> map comp_file (components a) = [''src/Button.tsx'']
     \<and> set (map api_file (apis a)) \<subseteq> set (map fn_path (files (proj_structure a)))
     \<and> set (map comp_file (components a)) \<subseteq> set (map fn_path (files (proj_structure a)))"
proof -
  from example_run obtain a where
    run: "analyze exampleHost ''/proj'' exampleOptions = Inr a"
    and as: "map api_file (apis a) = [''src/api/users.ts'']"
    and cs: "map comp_file (components a) = [''src/Button.tsx'']"
    by (elim exE conjE)
  from analysis_entries_from_discovered_files [OF run]
  have "set (map api_file (apis a)) \<subseteq> set (map fn_path (files (proj_structure a)))"
    and "set (map comp_file (components a)) \<subseteq> set (map fn_path (files (proj_structure a)))"
    by auto
  with run as cs show ?thesis by (intro exI [of _ a] conjI)
qed

lemma extractAPIs_description:
  "api \<in> set (extractAPIs fs d) \<Longrightarrow> \<exists>f. api_description api = Some (''API from '' @ f)"
  by (auto simp: extractAPIs_def apiOf_def)

lemma extractAPIs_described: "filter noDescription (extractAPIs fs d) = []"
  by (auto simp: filter_empty_conv noDescription_def dest!: extractAPIs_description)

text \<open>
  Claim C10. Every API definition that \<^verbatim>\<open>extractAPIs\<close> produces carries a non-empty
  description, for every file list and depth. Hence \<^verbatim>\<open>analyzeDocumentationNeeds\<close>, given
  those definitions, emits no medium-priority need, and the documentation needs of an
  analysis run are the single high-priority README need when no discovered path contains
  \<^verbatim>\<open>readme\<close> in any letter case, and empty otherwise.
\<close>

theorem documentation_needs_readme_only:
  "(\<forall>api \<in> set (extractAPIs fs d). \<exists>t. api_description api = Some t \<and> t \<noteq> [])
   \<and> (\<forall>n \<in> set (analyzeDocumentationNeeds fs (extractAPIs fs d) cs). need_priority n \<noteq> Medium)
   \<and> (analyze h rootPath options = Inr a \<longrightarrow>
        documentation_needs a =
          (if \<exists>f \<in> set (map fn_path (files (proj_structure a))).
                includes_str (toLowerCase f) ''readme''
           then []
           else [\<lparr>need_type = ''missing'', need_file = ''README.md'',
                  need_item = ''Project README'', need_priority = High,
                  suggestion = ''Create comprehensive project overview''\<rparr>]))"
proof (intro conjI impI)
  show "\<forall>api \<in> set (extractAPIs fs d). \<exists>t. api_description api = Some t \<and> t \<noteq> []"
    by (auto dest!: extractAPIs_description)
  have needs: "analyzeDocumentationNeeds fs' (extractAPIs fs' d') cs' =
      (if \<exists>f \<in> set fs'. includes_str (toLowerCase f) ''readme'' then [] else [readmeNeed])"
    for fs' d' cs'
    by (simp add: analyzeDocumentationNeeds_def extractAPIs_described list_ex_iff)
  show "\<forall>n \<in> set (analyzeDocumentationNeeds fs (extractAPIs fs d) cs). need_priority n \<noteq> Medium"
    by (simp add: needs readmeNeed_def)
  assume run: "analyze h rootPath options = Inr a"
  then obtain fs0 st md where
    b: "buildStructure h rootPath fs0 = Inr st"
    and a: "a = \<lparr>proj_structure = st, apis = extractAPIs fs0 (depth options),
          components = extractComponents fs0,
          documentation_needs =
            analyzeDocumentationNeeds fs0 (extractAPIs fs0 (depth options)) (extractComponents fs0),
          suggested_navigation = generateNavigation st, metadata = md\<rparr>"
    by (rule analyze_Inr)
  have "map fn_path (files (proj_structure a)) = fs0"
    using a buildStructure_paths [OF b] by simp
  then show "documentation_needs a =
          (if \<exists>f \<in> set (map fn_path (files (proj_structure a))).
                includes_str (toLowerCase f) ''readme''
           then []
           else [\<lparr>need_type = ''missing'', need_file = ''README.md'',
                  need_item = ''Project README'', need_priority = High,
                  suggestion = ''Create comprehensive project overview''\<rparr>])"
    using a by (simp add: needs readmeNeed_def)
qed

theorem documentation_needs_witness:
  "\<exists>a. analyze exampleHost ''/proj'' exampleOptions = Inr a
     \<and> map need_file (documentation_needs a) = [''README.md'']
     \<and> map need_priority (documentation_needs a) = [High]"
proof -
  from example_run obtain a where
    run: "analyze exampleHost ''/proj'' exampleOptions = Inr a"
    and fs: "map fn_path (files (proj_structure a)) = [''src/api/users.ts'', ''src/Button.tsx'']"
    by (elim exE conjE)
  have no: "\<not> (\<exists>f \<in> set [''src/api/users.ts'', ''src/Button.tsx''].
              includes_str (toLowerCase f) ''readme'')"
    by (simp add: toLowerCase_def lowerChar_def startsWith_def)
  from documentation_needs_readme_only [of "[]" "[]" "[]" exampleHost "''/proj''" exampleOptions a] run
  have "documentation_needs a =
          (if \<exists>f \<in> set (map fn_path (files (proj_structure a))).
                includes_str (toLowerCase f) ''readme''
           then []
           else [\<lparr>need_type = ''missing'', need_file = ''README.md'',
                  need_item = ''Project README'', need_priority = High,
                  suggestion = ''Create comprehensive project overview''\<rparr>])"
    by (elim conjE impE)
  with fs no have "documentation_needs a = [\<lparr>need_type = ''missing'', need_file = ''README.md'',
                  need_item = ''Project README'', need_priority = High,
                  suggestion = ''Create comprehensive project overview''\<rparr>]"
    by simp
  with run show ?thesis by simp
qed

section \<open>The analyzer: \<^verbatim>\<open>syncWithSource\<close> on missing roots\<close>

text \<open>
  Claim C1. A sync pass over a docs root or a source root that does not exist must not
  return the report of a clean tree. \<^verbatim>\<open>syncWithSource\<close> returns that report: on a host where
  neither root exists, the result is status \<^verbatim>\<open>synced\<close> with empty lists.
\<close>

theorem syncWithSource_missing_roots:
  "\<not> pathExists exampleHost ''/no/such/docs'' \<and> \<not> pathExists exampleHost ''/no/such/src''
   \<and> syncWithSource exampleHost ''/no/such/docs'' ''/no/such/src'' \<lparr>autoUpdate = False\<rparr>
       = \<lparr>result_status = Synced, result_outdated = [], updated = [], suggestions = []\<rparr>"
  by (simp add: syncWithSource_def exampleHost_def)

section \<open>Rounding to a double\<close>

lemma pow2_pos [simp]: "0 < pow2 k"
  by (simp add: pow2_def zero_less_power_int)

lemma pow2_nonneg [simp]: "0 \<le> pow2 k"
  using pow2_pos [of k] by linarith

lemma pow2_neq0 [simp]: "pow2 k \<noteq> 0"
  using pow2_pos [of k] by linarith

lemma pow2_mono: "a \<le> b \<Longrightarrow> pow2 a \<le> pow2 b"
  unfolding pow2_def by (rule power_int_increasing) simp_all

lemma pow2_strict_mono: "a < b \<Longrightarrow> pow2 a < pow2 b"
  unfolding pow2_def by (rule power_int_strict_increasing) simp_all

lemma pow2_less_iff: "pow2 a < pow2 b \<longleftrightarrow> a < b"
proof
  assume l: "pow2 a < pow2 b"
  show "a < b"
  proof (rule ccontr)
    assume "\<not> a < b"
    then have "b \<le> a" by simp
    then have "pow2 b \<le> pow2 a" by (rule pow2_mono)
    with l show False by simp
  qed
qed (rule pow2_strict_mono)

lemma pow2_add: "pow2 (a + b) = pow2 a * pow2 b"
  by (simp add: pow2_def power_int_add)

lemma pow2_0 [simp]: "pow2 0 = 1"
  by (simp add: pow2_def)

lemma pow2_1: "pow2 1 = 2"
  by (simp add: pow2_def)

lemma pow2_Suc: "pow2 (k + 1) = 2 * pow2 k"
  by (simp add: pow2_add pow2_1)

lemma pow2_pred: "pow2 (k - 1) = pow2 k / 2"
  using pow2_Suc [of "k - 1"] by simp

lemma pow2_nat: "0 \<le> k \<Longrightarrow> pow2 k = 2 ^ nat k"
  by (simp add: pow2_def power_int_def)

lemma pow2_diff: "pow2 (a - b) = pow2 a / pow2 b"
  using pow2_add [of "a - b" b] by (simp add: field_simps)

lemma ilog2_bounds:
  "0 < x \<Longrightarrow> pow2 (ilog2 x) \<le> x \<and> x < pow2 (ilog2 x + 1)"
proof (induction x rule: ilog2.induct)
  case (1 x)
  consider (small) "x < 1" | (big) "2 \<le> x" | (unit) "1 \<le> x" "x < 2" by linarith
  then show ?case
  proof cases
    case small
    with 1 have ih: "pow2 (ilog2 (2 * x)) \<le> 2 * x \<and> 2 * x < pow2 (ilog2 (2 * x) + 1)"
      by simp
    from small 1 have e: "ilog2 x = ilog2 (2 * x) - 1" by (subst ilog2.simps) simp
    have "pow2 (ilog2 (2 * x) - 1) = pow2 (ilog2 (2 * x)) / 2" by (rule pow2_pred)
    moreover have "pow2 (ilog2 (2 * x) - 1 + 1) = pow2 (ilog2 (2 * x) + 1) / 2"
      using pow2_Suc [of "ilog2 (2 * x)"] by simp
    ultimately show ?thesis using ih unfolding e by simp
  next
    case big
    with 1 have ih: "pow2 (ilog2 (x / 2)) \<le> x / 2 \<and> x / 2 < pow2 (ilog2 (x / 2) + 1)"
      by simp
    from big have e: "ilog2 x = ilog2 (x / 2) + 1" by (subst ilog2.simps) simp
    have "pow2 (ilog2 (x / 2) + 1) = 2 * pow2 (ilog2 (x / 2))" by (rule pow2_Suc)
    moreover have "pow2 (ilog2 (x / 2) + 1 + 1) = 2 * pow2 (ilog2 (x / 2) + 1)" by (rule pow2_Suc)
    ultimately show ?thesis using ih unfolding e by simp
  next
    case unit
    then have e: "ilog2 x = 0" by (subst ilog2.simps) simp
    from unit show ?thesis unfolding e by (simp add: pow2_1)
  qed
qed

lemma ilog2_unique:
  assumes "0 < x" and "pow2 e \<le> x" and "x < pow2 (e + 1)"
  shows "ilog2 x = e"
proof -
  from ilog2_bounds [OF assms(1)]
  have lo: "pow2 (ilog2 x) \<le> x" and hi: "x < pow2 (ilog2 x + 1)" by simp_all
  from lo assms(3) have "pow2 (ilog2 x) < pow2 (e + 1)" by simp
  then have "ilog2 x < e + 1" by (simp only: pow2_less_iff)
  moreover from assms(2) hi have "pow2 e < pow2 (ilog2 x + 1)" by simp
  then have "e < ilog2 x + 1" by (simp only: pow2_less_iff)
  ultimately show ?thesis by simp
qed

lemma exponent_eq:
  assumes "pow2 e \<le> \<bar>x\<bar>" and "\<bar>x\<bar> < pow2 (e + 1)" and "emin \<le> e"
  shows "exponent x = e"
proof -
  from assms(3) have "pow2 emin \<le> pow2 e" by (rule pow2_mono)
  with assms(1) have n: "\<not> \<bar>x\<bar> < pow2 emin" by simp
  have "0 < pow2 e" by simp
  with assms(1) have "0 < \<bar>x\<bar>" by linarith
  from ilog2_unique [OF this assms(1,2)] n show ?thesis by (simp add: exponent_def)
qed

lemma exponent_ge: "emin \<le> exponent x"
proof (cases "\<bar>x\<bar> < pow2 emin")
  case True
  then show ?thesis by (simp add: exponent_def)
next
  case False
  have "0 < pow2 emin" by simp
  with False have pos: "0 < \<bar>x\<bar>" by linarith
  from ilog2_bounds [OF pos] have "\<bar>x\<bar> < pow2 (ilog2 \<bar>x\<bar> + 1)" by simp
  with False have "pow2 emin < pow2 (ilog2 \<bar>x\<bar> + 1)" by simp
  then have "emin < ilog2 \<bar>x\<bar> + 1" by (simp only: pow2_less_iff)
  with False show ?thesis by (simp add: exponent_def)
qed

lemma exponent_upper: "\<bar>x\<bar> < pow2 (exponent x + 1)"
proof (cases "\<bar>x\<bar> < pow2 emin")
  case True
  have "pow2 emin \<le> pow2 (emin + 1)" by (rule pow2_mono) simp
  with True show ?thesis by (simp add: exponent_def)
next
  case False
  have "0 < pow2 emin" by simp
  with False have pos: "0 < \<bar>x\<bar>" by linarith
  from ilog2_bounds [OF pos] False show ?thesis by (simp add: exponent_def)
qed

lemma exponent_lower:
  assumes "pow2 emin \<le> \<bar>x\<bar>"
  shows "pow2 (exponent x) \<le> \<bar>x\<bar>"
proof -
  have "0 < pow2 emin" by simp
  with assms have pos: "0 < \<bar>x\<bar>" by linarith
  from ilog2_bounds [OF pos] assms show ?thesis by (simp add: exponent_def)
qed

lemma exponent_less:
  assumes "\<bar>x\<bar> < pow2 b" and "emin < b"
  shows "exponent x < b"
proof (cases "\<bar>x\<bar> < pow2 emin")
  case True
  with assms(2) show ?thesis by (simp add: exponent_def)
next
  case False
  then have "pow2 (exponent x) \<le> \<bar>x\<bar>" by (intro exponent_lower) simp
  with assms(1) have "pow2 (exponent x) < pow2 b" by simp
  then show ?thesis by (simp only: pow2_less_iff)
qed

lemma ulp_pos [simp]: "0 < ulp x"
  by (simp add: ulp_def)

lemma ulp_neq0 [simp]: "ulp x \<noteq> 0"
  using ulp_pos [of x] by linarith

lemma ulp_nonneg [simp]: "0 \<le> ulp x"
  using ulp_pos [of x] by linarith

lemma ulp_le:
  assumes "\<bar>x\<bar> < pow2 b" and "emin < b"
  shows "ulp x \<le> pow2 (b - 53)"
proof -
  from exponent_less [OF assms] have "exponent x - 52 \<le> b - 53" by simp
  then show ?thesis unfolding ulp_def by (rule pow2_mono)
qed

lemma ulp_rel:
  assumes "pow2 emin \<le> \<bar>x\<bar>"
  shows "ulp x \<le> \<bar>x\<bar> / 2 ^ 52"
proof -
  have "ulp x = pow2 (exponent x) / pow2 52" by (simp add: ulp_def pow2_diff)
  also have "pow2 52 = 2 ^ 52" by (simp add: pow2_nat)
  finally have "ulp x = pow2 (exponent x) / 2 ^ 52" .
  with exponent_lower [OF assms] show ?thesis by (simp add: divide_right_mono)
qed

lemma round_error: "\<bar>of_int (roundTiesToEven m) - m\<bar> \<le> 1 / 2"
  unfolding roundTiesToEven_def Let_def by (auto; linarith)

lemma round_of_int [simp]: "roundTiesToEven (of_int k) = k"
  by (simp add: roundTiesToEven_def)

lemma round_zero [simp]: "roundTiesToEven 0 = 0"
  using round_of_int [of 0] by simp

lemma round_nonneg: "0 \<le> m \<Longrightarrow> 0 \<le> roundTiesToEven m"
proof -
  assume "0 \<le> m"
  have "\<bar>of_int (roundTiesToEven m) - m\<bar> \<le> 1 / 2" by (rule round_error)
  with \<open>0 \<le> m\<close> have "- (1 / 2) \<le> real_of_int (roundTiesToEven m)" by linarith
  then show ?thesis by linarith
qed

lemma round_nonpos: "m \<le> 0 \<Longrightarrow> roundTiesToEven m \<le> 0"
proof -
  assume "m \<le> 0"
  have "\<bar>of_int (roundTiesToEven m) - m\<bar> \<le> 1 / 2" by (rule round_error)
  with \<open>m \<le> 0\<close> have "real_of_int (roundTiesToEven m) \<le> 1 / 2" by linarith
  then show ?thesis by linarith
qed

lemma fl_error: "\<bar>fl x - x\<bar> \<le> ulp x / 2"
proof -
  have u: "ulp x \<noteq> 0" using ulp_pos [of x] by linarith
  have "fl x - x = (of_int (roundTiesToEven (x / ulp x)) - x / ulp x) * ulp x"
    using u by (simp add: fl_def left_diff_distrib)
  then have "\<bar>fl x - x\<bar> = \<bar>of_int (roundTiesToEven (x / ulp x)) - x / ulp x\<bar> * ulp x"
    by (simp add: abs_mult abs_of_pos)
  also have "\<dots> \<le> (1 / 2) * ulp x"
    by (rule mult_right_mono [OF round_error]) (simp add: less_imp_le)
  finally show ?thesis by simp
qed

lemma fl_bounds: "x - ulp x / 2 \<le> fl x" "fl x \<le> x + ulp x / 2"
  using fl_error [of x] by linarith+

lemma fl_nonneg: "0 \<le> x \<Longrightarrow> 0 \<le> fl x"
proof -
  assume "0 \<le> x"
  then have "0 \<le> x / ulp x" by (rule divide_nonneg_pos) simp
  then have "0 \<le> roundTiesToEven (x / ulp x)" by (rule round_nonneg)
  then have "0 \<le> real_of_int (roundTiesToEven (x / ulp x))" by simp
  then show ?thesis unfolding fl_def by (rule mult_nonneg_nonneg) (simp add: less_imp_le)
qed

lemma fl_nonpos: "x \<le> 0 \<Longrightarrow> fl x \<le> 0"
proof -
  assume "x \<le> 0"
  then have "x / ulp x \<le> 0" by (simp add: divide_nonpos_pos)
  then have "roundTiesToEven (x / ulp x) \<le> 0" by (rule round_nonpos)
  then have "real_of_int (roundTiesToEven (x / ulp x)) \<le> 0" by simp
  then show ?thesis unfolding fl_def by (rule mult_nonpos_nonneg) (simp add: less_imp_le)
qed

lemma fl_zero [simp]: "fl 0 = 0"
  by (simp add: fl_def)

lemma fl_exact:
  assumes x: "x = of_int n * pow2 k" and n: "\<bar>n\<bar> < 2 ^ 53" and k: "emin - 52 \<le> k"
  shows "fl x = x"
proof -
  define u where "u = ulp x"
  have u: "u \<noteq> 0" by (simp add: u_def)
  from n have "real_of_int \<bar>n\<bar> < real_of_int (2 ^ 53)" by (simp only: of_int_less_iff)
  then have n': "real_of_int \<bar>n\<bar> < pow2 53" by (simp add: pow2_nat)
  have "\<bar>x\<bar> = of_int \<bar>n\<bar> * pow2 k" unfolding x by (simp add: abs_mult)
  also from n' have "\<dots> < pow2 53 * pow2 k" by (rule mult_strict_right_mono) simp
  also have "\<dots> = pow2 (k + 53)" by (simp add: pow2_add)
  finally have "\<bar>x\<bar> < pow2 (k + 53)" .
  moreover from k have "emin < k + 53" by simp
  ultimately have "exponent x < k + 53" by (rule exponent_less)
  then have j: "0 \<le> k - (exponent x - 52)" by simp
  define d where "d = nat (k - (exponent x - 52))"
  have "pow2 k = pow2 ((exponent x - 52) + (k - (exponent x - 52)))" by simp
  also have "\<dots> = pow2 (exponent x - 52) * pow2 (k - (exponent x - 52))" by (rule pow2_add)
  also have "pow2 (k - (exponent x - 52)) = 2 ^ d" using j by (simp add: d_def pow2_nat)
  finally have pk: "pow2 k = u * 2 ^ d" by (simp add: ulp_def u_def)
  note x
  also have "of_int n * pow2 k = of_int n * (u * 2 ^ d)" by (simp only: pk)
  also have "\<dots> = of_int (n * 2 ^ d) * u" by simp
  finally have xu: "x = of_int (n * 2 ^ d) * u" .
  then have "x / u = of_int (n * 2 ^ d)" using u by simp
  then have "roundTiesToEven (x / u) = n * 2 ^ d" by (simp only: round_of_int)
  then have "fl x = of_int (n * 2 ^ d) * u" by (simp add: fl_def u_def)
  with xu show ?thesis by simp
qed

lemma fl_int:
  assumes "\<bar>n\<bar> \<le> 2 ^ 53"
  shows "fl (of_int n) = of_int n"
proof (cases "\<bar>n\<bar> < 2 ^ 53")
  case True
  have "real_of_int n = of_int n * pow2 0" by simp
  from fl_exact [OF this True] show ?thesis by (simp add: emin_def)
next
  case False
  with assms have a: "\<bar>n\<bar> = 2 ^ 53" by simp
  from a have "n = 2 ^ 53 \<or> n = - (2 ^ 53)" by (simp add: abs_if split: if_splits)
  then have small: "\<bar>n div 2\<bar> < 2 ^ 53" and "n = (n div 2) * 2" by auto
  then have "real_of_int n = of_int (n div 2) * pow2 1"
    by (metis of_int_mult of_int_numeral pow2_1)
  from fl_exact [OF this small] show ?thesis by (simp add: emin_def)
qed

lemma fl_numeral [simp]: "numeral w \<le> (2::int) ^ 53 \<Longrightarrow> fl (numeral w) = numeral w"
  using fl_int [of "numeral w"] by simp

lemma fl_one [simp]: "fl 1 = 1"
  using fl_int [of 1] by simp

lemma fl_multiple: "\<exists>n. fl x = of_int n * ulp x \<and> \<bar>n\<bar> \<le> 2 ^ 53"
proof -
  define m where "m = x / ulp x"
  have "\<bar>x\<bar> < pow2 (exponent x + 1)" by (rule exponent_upper)
  also have "\<dots> = pow2 ((exponent x - 52) + 53)" by (rule arg_cong [of _ _ pow2]) simp
  also have "\<dots> = ulp x * pow2 53" unfolding ulp_def by (rule pow2_add)
  also have "pow2 53 = 2 ^ 53" by (simp add: pow2_nat)
  finally have "\<bar>x\<bar> < ulp x * 2 ^ 53" .
  then have "\<bar>m\<bar> < 2 ^ 53" by (simp add: m_def abs_divide pos_divide_less_eq mult.commute)
  moreover have "\<bar>of_int (roundTiesToEven m) - m\<bar> \<le> 1 / 2" by (rule round_error)
  ultimately have "\<bar>real_of_int (roundTiesToEven m)\<bar> < 2 ^ 53 + 1" by linarith
  then have "real_of_int \<bar>roundTiesToEven m\<bar> < real_of_int (2 ^ 53 + 1)" by simp
  then have "\<bar>roundTiesToEven m\<bar> < 2 ^ 53 + 1" by (simp only: of_int_less_iff)
  then have "\<bar>roundTiesToEven m\<bar> \<le> 2 ^ 53" by simp
  then show ?thesis by (intro exI [of _ "roundTiesToEven m"]) (simp add: fl_def m_def)
qed

lemma fl_idem [simp]: "fl (fl x) = fl x"
proof -
  from fl_multiple obtain n where f: "fl x = of_int n * ulp x" and n: "\<bar>n\<bar> \<le> 2 ^ 53" by blast
  have e: "emin - 52 \<le> exponent x - 52" using exponent_ge [of x] by simp
  show ?thesis
  proof (cases "\<bar>n\<bar> < 2 ^ 53")
    case True
    from f have "fl x = of_int n * pow2 (exponent x - 52)" by (simp add: ulp_def)
    from fl_exact [OF this True e] show ?thesis .
  next
    case False
    with n have a: "\<bar>n\<bar> = 2 ^ 53" by simp
    from a have "n = 2 ^ 53 \<or> n = - (2 ^ 53)" by (simp add: abs_if split: if_splits)
    then have small: "\<bar>n div 2\<bar> < 2 ^ 53" and "n = (n div 2) * 2" by auto
    then have "real_of_int n = of_int (n div 2) * 2" by (metis of_int_mult of_int_numeral)
    moreover have "pow2 (exponent x - 52 + 1) = 2 * ulp x" unfolding ulp_def by (rule pow2_Suc)
    ultimately have "fl x = of_int (n div 2) * pow2 (exponent x - 52 + 1)"
      using f by simp
    from fl_exact [OF this small] e show ?thesis by simp
  qed
qed


lemma pow2_numeral: "pow2 (numeral w) = 2 ^ numeral w"
  by (simp add: pow2_nat)

lemma pow2_neg_numeral: "pow2 (- numeral w) = 1 / 2 ^ numeral w"
  using pow2_diff [of 0 "numeral w"] by (simp add: pow2_numeral)

lemma emin_less_normal: "pow2 emin \<le> 1"
  using pow2_mono [of emin 0] by (simp add: emin_def)

lemma double_multiple: "fl D = D \<Longrightarrow> \<exists>N. D = of_int N * ulp D"
  unfolding fl_def by metis

lemma ulp_binade16:
  assumes "65536 \<le> D" and "D < 131072"
  shows "ulp D = 1 / 2 ^ 36"
proof -
  have "pow2 16 \<le> \<bar>D\<bar>" using assms by (simp add: pow2_numeral)
  moreover have "\<bar>D\<bar> < pow2 (16 + 1)" using assms by (simp add: pow2_numeral)
  moreover have "emin \<le> 16" by (simp add: emin_def)
  ultimately have "exponent D = 16" by (rule exponent_eq)
  then show ?thesis by (simp add: ulp_def pow2_neg_numeral)
qed

lemma ulp_below_one:
  assumes "\<bar>q\<bar> < 1"
  shows "ulp q \<le> 1 / 2 ^ 53"
proof -
  from assms have "\<bar>q\<bar> < pow2 0" by simp
  moreover have "emin < 0" by (simp add: emin_def)
  ultimately have "ulp q \<le> pow2 (0 - 53)" by (rule ulp_le)
  then show ?thesis by (simp add: pow2_neg_numeral)
qed

lemma fl_days_lt_one:
  assumes d: "fl D = D" and lt: "D < 86400"
  shows "fl (D / 86400) < 1"
proof -
  consider (neg) "D \<le> 0" | (low) "0 < D" "D < 65536" | (high) "65536 \<le> D" by linarith
  then show ?thesis
  proof cases
    case neg
    then have "D / 86400 \<le> 0" by simp
    then have "fl (D / 86400) \<le> 0" by (rule fl_nonpos)
    then show ?thesis by simp
  next
    case low
    define q where "q = D / 86400"
    from low have q: "0 < q" "q < 4 / 5" by (simp_all add: q_def)
    then have "\<bar>q\<bar> < 1" by simp
    then have "ulp q \<le> 1 / 2 ^ 53" by (rule ulp_below_one)
    then have "ulp q \<le> 1 / 10" by simp
    with fl_bounds [of q] q have "fl q < 1" by linarith
    then show ?thesis by (simp add: q_def)
  next
    case high
    with lt have u: "ulp D = 1 / 2 ^ 36" by (intro ulp_binade16) simp_all
    from double_multiple [OF d] obtain N where N: "D = of_int N / 2 ^ 36" unfolding u by auto
    with lt have "real_of_int N < real_of_int (86400 * 2 ^ 36)" by simp
    then have "N < 86400 * 2 ^ 36" by (simp only: of_int_less_iff)
    then have "N \<le> 86400 * 2 ^ 36 - 1" by simp
    then have "real_of_int N \<le> real_of_int (86400 * 2 ^ 36 - 1)" by (simp only: of_int_le_iff)
    with N have le: "D \<le> 86400 - 1 / 2 ^ 36" by simp
    define q where "q = D / 86400"
    from le have q: "q \<le> 1 - 1 / (2 ^ 36 * 86400)" by (simp add: q_def)
    from high lt have "\<bar>q\<bar> < 1" by (simp add: q_def)
    then have "ulp q \<le> 1 / 2 ^ 53" by (rule ulp_below_one)
    with fl_bounds(2) [of q] have "fl q \<le> q + 1 / 2 ^ 54" by simp
    also from q have "\<dots> \<le> 1 - 1 / (2 ^ 36 * 86400) + 1 / 2 ^ 54" by simp
    also have "\<dots> < 1" by simp
    finally have "fl q < 1" .
    then show ?thesis by (simp add: q_def)
  qed
qed

lemma fl_days_ge_one:
  assumes d: "fl D = D" and ge: "86400 \<le> D"
  shows "1 \<le> fl (D / 86400)"
proof -
  consider (eq) "D = 86400" | (near) "86400 < D" "D < 131072" | (far) "131072 \<le> D"
    using ge by linarith
  then show ?thesis
  proof cases
    case eq
    then show ?thesis by simp
  next
    case near
    then have u: "ulp D = 1 / 2 ^ 36" by (intro ulp_binade16) simp_all
    from double_multiple [OF d] obtain N where N: "D = of_int N / 2 ^ 36" unfolding u by auto
    with near have "real_of_int (86400 * 2 ^ 36) < real_of_int N" by simp
    then have "86400 * 2 ^ 36 < N" by (simp only: of_int_less_iff)
    then have "86400 * 2 ^ 36 + 1 \<le> N" by simp
    then have "real_of_int (86400 * 2 ^ 36 + 1) \<le> real_of_int N" by (simp only: of_int_le_iff)
    with N have le: "86400 + 1 / 2 ^ 36 \<le> D" by simp
    define q where "q = D / 86400"
    from le have q: "1 + 1 / (2 ^ 36 * 86400) \<le> q" by (simp add: q_def)
    have "pow2 0 \<le> \<bar>q\<bar>" using near by (simp add: q_def)
    moreover have "\<bar>q\<bar> < pow2 (0 + 1)" using near by (simp add: pow2_1 q_def)
    moreover have "emin \<le> 0" by (simp add: emin_def)
    ultimately have "exponent q = 0" by (rule exponent_eq)
    then have "ulp q = 1 / 2 ^ 52" by (simp add: ulp_def pow2_neg_numeral)
    with fl_bounds(1) [of q] have "q - 1 / 2 ^ 53 \<le> fl q" by simp
    moreover have "(1::real) \<le> 1 + 1 / (2 ^ 36 * 86400) - 1 / 2 ^ 53" by simp
    ultimately have "1 \<le> fl q" using q by linarith
    then show ?thesis by (simp add: q_def)
  next
    case far
    define q where "q = D / 86400"
    from far have q: "3 / 2 \<le> q" by (simp add: q_def)
    with emin_less_normal have "pow2 emin \<le> \<bar>q\<bar>" by linarith
    then have "ulp q \<le> \<bar>q\<bar> / 2 ^ 52" by (rule ulp_rel)
    with q have "ulp q \<le> q / 2" by simp
    with fl_bounds [of q] q have "1 \<le> fl q" by linarith
    then show ?thesis by (simp add: q_def)
  qed
qed

lemma fl_days_pos_iff:
  assumes "fl D = D"
  shows "0 < \<lfloor>fl (D / 86400)\<rfloor> \<longleftrightarrow> 86400 \<le> D"
proof
  assume "86400 \<le> D"
  with assms have "1 \<le> fl (D / 86400)" by (rule fl_days_ge_one)
  then show "0 < \<lfloor>fl (D / 86400)\<rfloor>" by linarith
next
  assume pos: "0 < \<lfloor>fl (D / 86400)\<rfloor>"
  show "86400 \<le> D"
  proof (rule ccontr)
    assume "\<not> 86400 \<le> D"
    then have "D < 86400" by simp
    with assms have "fl (D / 86400) < 1" by (rule fl_days_lt_one)
    with pos show False by linarith
  qed
qed

lemma floor_fl_days:
  assumes d: "fl D = D" and nonneg: "0 \<le> D" and bound: "D < 2 ^ 60"
  shows "\<lfloor>fl (D / 86400)\<rfloor> = \<lfloor>D / 86400\<rfloor>"
proof (cases "D < 86400")
  case True
  with d have "fl (D / 86400) < 1" by (rule fl_days_lt_one)
  moreover from nonneg have "0 \<le> fl (D / 86400)" by (intro fl_nonneg) simp
  ultimately have "\<lfloor>fl (D / 86400)\<rfloor> = 0" by linarith
  moreover from True nonneg have "\<lfloor>D / 86400\<rfloor> = 0" by (intro floor_unique) simp_all
  ultimately show ?thesis by simp
next
  case False
  then have big: "86400 \<le> D" by simp
  define e where "e = exponent D"
  define g where "g = ulp D"
  define q where "q = D / 86400"
  define k where "k = \<lfloor>q\<rfloor>"
  have g: "g = pow2 (e - 52)" and gpos: "0 < g" by (simp_all add: g_def e_def ulp_def)
  from big emin_less_normal have "pow2 emin \<le> \<bar>D\<bar>" by linarith
  then have "pow2 e \<le> \<bar>D\<bar>" unfolding e_def by (rule exponent_lower)
  with big have lo: "pow2 e \<le> D" by simp
  have "\<bar>D\<bar> < pow2 (e + 1)" unfolding e_def by (rule exponent_upper)
  with big have hi: "D < pow2 (e + 1)" by simp
  from lo bound have "pow2 e < pow2 60" by (simp add: pow2_numeral)
  then have e59: "e \<le> 59" by (simp only: pow2_less_iff)
  from hi big have "pow2 16 < pow2 (e + 1)" by (simp add: pow2_numeral)
  then have e16: "16 \<le> e" by (simp only: pow2_less_iff)
  from double_multiple [OF d] obtain N where N: "D = of_int N * g" unfolding g_def by auto
  define M :: int where "M = 675 * 2 ^ nat (59 - e)"
  have "pow2 7 = pow2 ((e - 52) + (59 - e))" by (rule arg_cong [of _ _ pow2]) simp
  also have "\<dots> = g * pow2 (59 - e)" unfolding g by (rule pow2_add)
  also have "pow2 (59 - e) = 2 ^ nat (59 - e)" using e59 by (intro pow2_nat) simp
  finally have "pow2 7 = g * 2 ^ nat (59 - e)" .
  then have "675 * pow2 7 = of_int M * g" by (simp add: M_def)
  then have M: "86400 = of_int M * g" by (simp add: pow2_numeral)
  have kq: "of_int k \<le> q" "q < of_int k + 1" by (simp_all add: k_def)
  have k0: "0 \<le> k" using big by (simp add: k_def q_def)
  have Dk: "86400 * of_int k \<le> D" "D < 86400 * (of_int k + 1)" using kq by (simp_all add: q_def)
  have Mg: "real_of_int (M * j) * g = 86400 * of_int j" for j
  proof -
    have "real_of_int (M * j) * g = (of_int M * g) * of_int j" by simp
    then show ?thesis by (simp only: M [symmetric])
  qed
  have "real_of_int (M * k) * g \<le> of_int N * g" using Dk(1) unfolding Mg N [symmetric] .
  then have "real_of_int (M * k) \<le> of_int N" using gpos by simp
  then have Mk: "M * k \<le> N" by (simp only: of_int_le_iff)
  have "of_int N * g < real_of_int (M * (k + 1)) * g"
    using Dk(2) unfolding Mg N [symmetric] by simp
  then have "real_of_int N < of_int (M * (k + 1))" using gpos by simp
  then have "N < M * (k + 1)" by (simp only: of_int_less_iff)
  then have "N + 1 \<le> M * (k + 1)" by simp
  then have "real_of_int (N + 1) \<le> of_int (M * (k + 1))" by (simp only: of_int_le_iff)
  then have "real_of_int (N + 1) * g \<le> of_int (M * (k + 1)) * g"
    using gpos by (intro mult_right_mono) simp_all
  then have "D + g \<le> real_of_int (M * (k + 1)) * g"
    unfolding N by (simp add: algebra_simps)
  then have up: "D + g \<le> 86400 * (of_int k + 1)" unfolding Mg by simp
  have "q < pow2 (e + 1) / 86400" using hi by (simp add: q_def)
  also have "\<dots> \<le> pow2 (e + 1) / pow2 16" by (simp add: pow2_numeral frac_le)
  also have "\<dots> = pow2 (e + 1 - 16)" by (simp only: pow2_diff)
  finally have "q < pow2 (e + 1 - 16)" .
  moreover have "0 \<le> q" using nonneg by (simp add: q_def)
  ultimately have "\<bar>q\<bar> < pow2 (e + 1 - 16)" by simp
  moreover have "emin < e + 1 - 16" using e16 by (simp add: emin_def)
  ultimately have "ulp q \<le> pow2 (e + 1 - 16 - 53)" by (rule ulp_le)
  also have "e + 1 - 16 - 53 = (e - 52) - 16" by simp
  also have "pow2 ((e - 52) - 16) = g / pow2 16" unfolding g by (rule pow2_diff)
  finally have uq: "ulp q \<le> g / 65536" by (simp add: pow2_numeral)
  have err: "\<bar>fl q - q\<bar> \<le> ulp q / 2" by (rule fl_error)
  have upper: "fl q < of_int k + 1"
  proof -
    from up have "q + g / 86400 \<le> of_int k + 1" by (simp add: q_def field_simps)
    with fl_bounds [of q] uq gpos show ?thesis by linarith
  qed
  have lower: "of_int k \<le> fl q"
  proof (cases "N = M * k")
    case True
    then have "D = 86400 * of_int k" using N Mg [of k] by simp
    then have qk: "q = of_int k" by (simp add: q_def)
    have "real_of_int k \<le> D / 86400" using kq by (simp add: q_def)
    also have "\<dots> < 2 ^ 60 / 86400" using bound by simp
    also have "\<dots> \<le> real_of_int (2 ^ 53)" by simp
    finally have "k < 2 ^ 53" by (simp only: of_int_less_iff)
    with k0 have "\<bar>k\<bar> \<le> 2 ^ 53" by simp
    then have "fl (of_int k) = of_int k" by (rule fl_int)
    then show ?thesis by (simp add: qk)
  next
    case False
    with Mk have "M * k + 1 \<le> N" by simp
    then have "real_of_int (M * k + 1) \<le> of_int N" by (simp only: of_int_le_iff)
    then have "real_of_int (M * k + 1) * g \<le> of_int N * g"
      using gpos by (intro mult_right_mono) simp_all
    then have "real_of_int (M * k) * g + g \<le> D" unfolding N by (simp add: algebra_simps)
    then have "86400 * of_int k + g \<le> D" unfolding Mg .
    then have "of_int k + g / 86400 \<le> q" by (simp add: q_def field_simps)
    with fl_bounds [of q] uq gpos show ?thesis by linarith
  qed
  from lower upper have "\<lfloor>fl q\<rfloor> = k" by (intro floor_unique) simp_all
  then show ?thesis by (simp add: k_def q_def)
qed

lemma number_subtract_self [simp]: "number_subtract x x = 0"
  by (simp add: number_subtract_def)

lemma number_subtract_int:
  assumes "\<bar>b - a\<bar> \<le> 2 ^ 53"
  shows "number_subtract (of_int b) (of_int a) = of_int b - of_int a"
proof -
  have "number_subtract (of_int b) (of_int a) = fl (of_int (b - a))"
    by (simp add: number_subtract_def)
  also from assms have "\<dots> = of_int (b - a)" by (rule fl_int)
  finally show ?thesis by simp
qed

lemma fl_eval:
  assumes "pow2 e \<le> \<bar>x\<bar>" and "\<bar>x\<bar> < pow2 (e + 1)" and "emin \<le> e"
  shows "fl x = of_int (roundTiesToEven (x / pow2 (e - 52))) * pow2 (e - 52)"
  using exponent_eq [OF assms] by (simp add: fl_def ulp_def)

lemma floor_number_divide:
  "fl D = D \<Longrightarrow> 0 \<le> D \<Longrightarrow> D < 2 ^ 60 \<Longrightarrow> \<lfloor>number_divide D 86400\<rfloor> = \<lfloor>D / 86400\<rfloor>"
  unfolding number_divide_def by (rule floor_fl_days)

section \<open>The sync checker: drift detection\<close>

lemma floor_days_pos:
  "0 < \<lfloor>number_divide (number_subtract s d) 86400\<rfloor> \<longleftrightarrow> 86400 \<le> number_subtract s d"
  unfolding number_divide_def
  by (rule fl_days_pos_iff) (simp add: number_subtract_def)


lemma checkDoc_Inr:
  assumes "checkDoc env dd sd f r = Inr r'"
  obtains
    (absent) "\<not> existsSync env (sourceEquivalent env dd sd f)" "r' = r"
  | (drift) d s where "existsSync env (sourceEquivalent env dd sd f)"
      "getLastModified env f = Inr d" "getLastModified env (sourceEquivalent env dd sd f) = Inr s"
      "86400 \<le> number_subtract s d"
      "r' = r\<lparr>outdated := outdated r @ [outdatedEntry env dd sd f \<lfloor>number_divide (number_subtract s d) 86400\<rfloor>],
               summary := (summary r)\<lparr>outdatedDocs := outdatedDocs (summary r) + 1\<rparr>\<rparr>"
  | (fresh) d s where "existsSync env (sourceEquivalent env dd sd f)"
      "getLastModified env f = Inr d" "getLastModified env (sourceEquivalent env dd sd f) = Inr s"
      "number_subtract s d < 86400"
      "r' = r\<lparr>summary := (summary r)\<lparr>upToDate := upToDate (summary r) + 1\<rparr>\<rparr>"
proof (cases "existsSync env (sourceEquivalent env dd sd f)")
  case False
  with assms have "r' = r" by (simp add: checkDoc_def Let_def)
  with False show ?thesis by (rule absent)
next
  case True
  with assms obtain d s where
    d: "getLastModified env f = Inr d" and
    s: "getLastModified env (sourceEquivalent env dd sd f) = Inr s"
    by (auto simp: checkDoc_def Let_def split: sum.splits)
  show ?thesis
  proof (cases "86400 \<le> number_subtract s d")
    case True
    then have "0 < \<lfloor>number_divide (number_subtract s d) 86400\<rfloor>" unfolding floor_days_pos .
    with assms \<open>existsSync env (sourceEquivalent env dd sd f)\<close> d s
    have "r' = r\<lparr>outdated := outdated r @ [outdatedEntry env dd sd f \<lfloor>number_divide (number_subtract s d) 86400\<rfloor>],
               summary := (summary r)\<lparr>outdatedDocs := outdatedDocs (summary r) + 1\<rparr>\<rparr>"
      by (simp add: checkDoc_def Let_def)
    with \<open>existsSync env (sourceEquivalent env dd sd f)\<close> d s True show ?thesis by (rule drift)
  next
    case False
    then have "\<not> 0 < \<lfloor>number_divide (number_subtract s d) 86400\<rfloor>" unfolding floor_days_pos .
    with assms \<open>existsSync env (sourceEquivalent env dd sd f)\<close> d s
    have "r' = r\<lparr>summary := (summary r)\<lparr>upToDate := upToDate (summary r) + 1\<rparr>\<rparr>"
      by (simp add: checkDoc_def Let_def)
    moreover from False have "number_subtract s d < 86400" by simp
    ultimately show ?thesis
      using \<open>existsSync env (sourceEquivalent env dd sd f)\<close> d s by (intro fresh)
  qed
qed

lemma checkDoc_effect:
  assumes "checkDoc env dd sd f r = Inr r'"
  shows "map doc (outdated r') =
           map doc (outdated r) @ (if drifted env dd sd f then [relative (cwd env) dd f] else [])"
    and "upToDate (summary r') = upToDate (summary r) + (if fresh env dd sd f then 1 else 0)"
    and "outdatedDocs (summary r') = outdatedDocs (summary r) + (if drifted env dd sd f then 1 else 0)"
    and "missing r' = missing r" and "status r' = status r"
    and "recommendations r' = recommendations r"
  using assms
  by (cases rule: checkDoc_Inr; auto simp: drifted_def fresh_def outdatedEntry_def)+

lemma checkDocs_effect:
  assumes "checkDocs env dd sd fs r = Inr r'"
  shows "map doc (outdated r') =
           map doc (outdated r) @ map (relative (cwd env) dd) (filter (drifted env dd sd) fs)
         \<and> upToDate (summary r') = upToDate (summary r) + length (filter (fresh env dd sd) fs)
         \<and> outdatedDocs (summary r') = outdatedDocs (summary r) + length (filter (drifted env dd sd) fs)
         \<and> missing r' = missing r \<and> status r' = status r
         \<and> recommendations r' = recommendations r"
  using assms
proof (induction fs arbitrary: r)
  case Nil
  then show ?case by simp
next
  case (Cons f fs)
  from Cons.prems obtain r1 where
    step: "checkDoc env dd sd f r = Inr r1" and rest: "checkDocs env dd sd fs r1 = Inr r'"
    by (auto split: sum.splits)
  from Cons.IH [OF rest] checkDoc_effect [OF step] show ?case by simp
qed


lemma checkApiFile_effect:
  "outdated (checkApiFile env dd sd f r) = outdated r"
  "status (checkApiFile env dd sd f r) = status r"
  "upToDate (summary (checkApiFile env dd sd f r)) = upToDate (summary r)"
  "outdatedDocs (summary (checkApiFile env dd sd f r)) = outdatedDocs (summary r)"
  by (simp_all add: checkApiFile_def Let_def)

lemma fold_checkApiFile_effect:
  "outdated (fold (checkApiFile env dd sd) fs r) = outdated r
   \<and> status (fold (checkApiFile env dd sd) fs r) = status r
   \<and> upToDate (summary (fold (checkApiFile env dd sd) fs r)) = upToDate (summary r)
   \<and> outdatedDocs (summary (fold (checkApiFile env dd sd) fs r)) = outdatedDocs (summary r)"
  by (induction fs arbitrary: r) (simp_all add: checkApiFile_effect)

lemma recommend_effect:
  "outdated (recommend r) = outdated r" "missing (recommend r) = missing r"
  "summary (recommend r) = summary r"
  "status (recommend r) =
     (if missing r \<noteq> [] then Incomplete else if outdated r \<noteq> [] then Outdated else status r)"
  by (simp_all add: recommend_def Let_def)

lemma analyzeSync_Inr:
  assumes "analyzeSync env c = Inr r"
  obtains sourceDir docsDir sourceFiles docFiles r1 where
    "source c = Some sourceDir" "docs c = Some docsDir"
    "findFiles env sourceDir [''.ts'', ''.tsx'', ''.js'', ''.jsx'', ''.py''] = Inr sourceFiles"
    "findFiles env docsDir [''.md'', ''.mdx''] = Inr docFiles"
    "checkDocs env docsDir sourceDir docFiles
       \<lparr>timestamp = now env, status = Synced,
        summary = \<lparr>totalSourceFiles = length sourceFiles, totalDocFiles = length docFiles,
                   outdatedDocs = 0, missingDocs = 0, upToDate = 0\<rparr>,
        outdated = [], missing = [], recommendations = []\<rparr> = Inr r1"
    "r = recommend (fold (checkApiFile env docsDir sourceDir) (filter isApiFile sourceFiles) r1)"
  using assms
  by (auto simp: analyzeSync_def Let_def split: option.splits sum.splits)

lemma default_args:
  "parseArgs [] =
     \<lparr>docs = Some ''./docs'', source = Some ''./src'', output_path = Some ''./sync-report.json''\<rparr>"
  by (simp add: parseArgs_def)


subsection \<open>The run on the boundary example\<close>

lemma b_files:
  "findFiles boundaryEnv ''./docs'' [''.md'', ''.mdx'']
     = Inr [''docs/second.md'', ''docs/same.md'', ''docs/day.md'']"
  "findFiles boundaryEnv ''./src'' [''.ts'', ''.tsx'', ''.js'', ''.jsx'', ''.py'']
     = Inr [''src/second.ts'', ''src/same.ts'', ''src/day.ts'']"
  by (simp_all add: fs_defs boundaryEnv_def path_defs)

lemma b_glm:
  "getLastModified boundaryEnv ''docs/second.md'' = Inr 1000000"
  "getLastModified boundaryEnv ''src/second.ts'' = Inr 1000001"
  "getLastModified boundaryEnv ''docs/same.md'' = Inr 1000000"
  "getLastModified boundaryEnv ''src/same.ts'' = Inr 1000000"
  "getLastModified boundaryEnv ''docs/day.md'' = Inr 1000000"
  "getLastModified boundaryEnv ''src/day.ts'' = Inr 1086400"
  by (simp_all add: getLastModified_def boundaryEnv_def gitTimes_def parse_defs startsWith_def)

lemma b_srcEq:
  "sourceEquivalent boundaryEnv ''./docs'' ''./src'' ''docs/second.md'' = ''src/second.ts''"
  "sourceEquivalent boundaryEnv ''./docs'' ''./src'' ''docs/same.md'' = ''src/same.ts''"
  "sourceEquivalent boundaryEnv ''./docs'' ''./src'' ''docs/day.md'' = ''src/day.ts''"
  by (simp_all add: sourceEquivalent_def replaceDocExt_def boundaryEnv_def path_defs)

lemma b_exists:
  "existsSync boundaryEnv ''src/second.ts''"
  "existsSync boundaryEnv ''src/same.ts''"
  "existsSync boundaryEnv ''src/day.ts''"
  by (simp_all add: fs_defs boundaryEnv_def)

lemma b_rel:
  "relative (cwd boundaryEnv) ''./docs'' ''docs/second.md'' = ''second.md''"
  "relative (cwd boundaryEnv) ''./docs'' ''docs/same.md'' = ''same.md''"
  "relative (cwd boundaryEnv) ''./docs'' ''docs/day.md'' = ''day.md''"
  "relative (cwd boundaryEnv) ''./src'' ''src/day.ts'' = ''day.ts''"
  by (simp_all add: boundaryEnv_def path_defs)

lemma b_diff:
  "number_subtract 1000001 1000000 = 1"
  "number_subtract 1000000 1000000 = 0"
  "number_subtract 1086400 1000000 = 86400"
  by (simp_all add: number_subtract_def)

lemma b_steps:
  "checkDoc boundaryEnv ''./docs'' ''./src'' ''docs/second.md'' r
     = Inr (r\<lparr>summary := (summary r)\<lparr>upToDate := upToDate (summary r) + 1\<rparr>\<rparr>)"
  "checkDoc boundaryEnv ''./docs'' ''./src'' ''docs/same.md'' r
     = Inr (r\<lparr>summary := (summary r)\<lparr>upToDate := upToDate (summary r) + 1\<rparr>\<rparr>)"
  "checkDoc boundaryEnv ''./docs'' ''./src'' ''docs/day.md'' r
     = Inr (r\<lparr>outdated := outdated r @
              [\<lparr>doc = ''day.md'', doc_source = ''day.ts'', daysBehind = 1, doc_priority = Low\<rparr>],
            summary := (summary r)\<lparr>outdatedDocs := outdatedDocs (summary r) + 1\<rparr>\<rparr>)"
  by (simp_all add: checkDoc_def b_srcEq b_exists b_glm b_diff floor_number_divide
      outdatedEntry_def b_rel drift_priority_def)

lemma b_api:
  "\<not> isApiFile ''src/second.ts''" "\<not> isApiFile ''src/same.ts''" "\<not> isApiFile ''src/day.ts''"
  by (simp_all add: isApiFile_def startsWith_def)

lemma b_now: "now boundaryEnv = ''2026-01-01T00:00:00.000Z''"
  by (simp add: boundaryEnv_def)

lemma b_run: "\<exists>r. analyzeSync boundaryEnv (parseArgs []) = Inr r"
  by (simp add: default_args analyzeSync_def b_files b_steps)

subsection \<open>The run on the example with millisecond times\<close>

lemma m_files:
  "findFiles mtimeEnv ''./docs'' [''.md'', ''.mdx''] = Inr [''docs/one.md'', ''docs/eight.md'']"
  "findFiles mtimeEnv ''./src'' [''.ts'', ''.tsx'', ''.js'', ''.jsx'', ''.py'']
     = Inr [''src/one.ts'', ''src/eight.ts'']"
  by (simp_all add: fs_defs mtimeEnv_def path_defs)

text \<open>
  The quotients by 1000 are not doubles: near \<open>2 ^ 30\<close> seconds the doubles are
  \<open>2 ^ 23\<close> or \<open>2 ^ 22\<close> to the second.
\<close>

lemma m_quotients:
  "number_divide 1073679404633 1000 = 9006675643139621 / 8388608"
  "number_divide 1073765804633 1000 = 2251850104717705 / 2097152"
  "number_divide 1074370604633 1000 = 2253118462247305 / 2097152"
proof -
  show "number_divide 1073679404633 1000 = 9006675643139621 / 8388608"
    unfolding number_divide_def
    by (subst fl_eval [where e = 29])
       (simp_all add: pow2_numeral pow2_neg_numeral emin_def roundTiesToEven_def)
  show "number_divide 1073765804633 1000 = 2251850104717705 / 2097152"
    unfolding number_divide_def
    by (subst fl_eval [where e = 30])
       (simp_all add: pow2_numeral pow2_neg_numeral emin_def roundTiesToEven_def)
  show "number_divide 1074370604633 1000 = 2253118462247305 / 2097152"
    unfolding number_divide_def
    by (subst fl_eval [where e = 30])
       (simp_all add: pow2_numeral pow2_neg_numeral emin_def roundTiesToEven_def)
qed

lemma m_glm:
  "getLastModified mtimeEnv ''docs/one.md'' = Inr (9006675643139621 / 8388608)"
  "getLastModified mtimeEnv ''src/one.ts'' = Inr (2251850104717705 / 2097152)"
  "getLastModified mtimeEnv ''docs/eight.md'' = Inr (9006675643139621 / 8388608)"
  "getLastModified mtimeEnv ''src/eight.ts'' = Inr (2253118462247305 / 2097152)"
  by (simp_all add: getLastModified_def fs_defs mtimeEnv_def m_quotients)

lemma m_doubles:
  "fl (724775731199 / 8388608) = 724775731199 / 8388608"
  "fl (5798205849599 / 8388608) = 5798205849599 / 8388608"
proof -
  show "fl (724775731199 / 8388608) = 724775731199 / 8388608"
    by (rule fl_exact [where n = 724775731199 and k = "- 23"])
       (simp_all add: pow2_neg_numeral emin_def)
  show "fl (5798205849599 / 8388608) = 5798205849599 / 8388608"
    by (rule fl_exact [where n = 5798205849599 and k = "- 23"])
       (simp_all add: pow2_neg_numeral emin_def)
qed

text \<open>
  The computed differences: a little less than one day, 86399.99999988, and a little less
  than eight days, 691199.99999988.
\<close>

lemma m_diff:
  "number_subtract (2251850104717705 / 2097152) (9006675643139621 / 8388608)
     = 724775731199 / 8388608"
  "number_subtract (2253118462247305 / 2097152) (9006675643139621 / 8388608)
     = 5798205849599 / 8388608"
  by (simp_all add: number_subtract_def m_doubles)

lemma m_srcEq:
  "sourceEquivalent mtimeEnv ''./docs'' ''./src'' ''docs/one.md'' = ''src/one.ts''"
  "sourceEquivalent mtimeEnv ''./docs'' ''./src'' ''docs/eight.md'' = ''src/eight.ts''"
  by (simp_all add: sourceEquivalent_def replaceDocExt_def mtimeEnv_def path_defs)

lemma m_exists:
  "existsSync mtimeEnv ''src/one.ts''" "existsSync mtimeEnv ''src/eight.ts''"
  by (simp_all add: fs_defs mtimeEnv_def)

lemma m_rel:
  "relative (cwd mtimeEnv) ''./docs'' ''docs/one.md'' = ''one.md''"
  "relative (cwd mtimeEnv) ''./docs'' ''docs/eight.md'' = ''eight.md''"
  "relative (cwd mtimeEnv) ''./src'' ''src/eight.ts'' = ''eight.ts''"
  by (simp_all add: mtimeEnv_def path_defs)

lemma m_steps:
  "checkDoc mtimeEnv ''./docs'' ''./src'' ''docs/one.md'' r
     = Inr (r\<lparr>summary := (summary r)\<lparr>upToDate := upToDate (summary r) + 1\<rparr>\<rparr>)"
  "checkDoc mtimeEnv ''./docs'' ''./src'' ''docs/eight.md'' r
     = Inr (r\<lparr>outdated := outdated r @
              [\<lparr>doc = ''eight.md'', doc_source = ''eight.ts'', daysBehind = 7,
                doc_priority = Medium\<rparr>],
            summary := (summary r)\<lparr>outdatedDocs := outdatedDocs (summary r) + 1\<rparr>\<rparr>)"
  by (simp_all add: checkDoc_def m_srcEq m_exists m_glm m_diff m_doubles floor_number_divide
      outdatedEntry_def m_rel drift_priority_def)

lemma both_instants:
  "(\<exists>docMod srcMod. (Inr d :: js_error + real) = Inr docMod
      \<and> (Inr s :: js_error + real) = Inr srcMod \<and> P srcMod docMod) \<longleftrightarrow> P s d"
  by auto

lemma m_late:
  "(\<exists>docMod srcMod. getLastModified mtimeEnv ''docs/one.md'' = Inr docMod \<and>
      getLastModified mtimeEnv (sourceEquivalent mtimeEnv ''./docs'' ''./src'' ''docs/one.md'')
        = Inr srcMod \<and>
      86400 \<le> number_subtract srcMod docMod) = False"
  "(\<exists>docMod srcMod. getLastModified mtimeEnv ''docs/one.md'' = Inr docMod \<and>
      getLastModified mtimeEnv (sourceEquivalent mtimeEnv ''./docs'' ''./src'' ''docs/one.md'')
        = Inr srcMod \<and>
      number_subtract srcMod docMod < 86400) = True"
  "(\<exists>docMod srcMod. getLastModified mtimeEnv ''docs/eight.md'' = Inr docMod \<and>
      getLastModified mtimeEnv (sourceEquivalent mtimeEnv ''./docs'' ''./src'' ''docs/eight.md'')
        = Inr srcMod \<and>
      86400 \<le> number_subtract srcMod docMod) = True"
  "(\<exists>docMod srcMod. getLastModified mtimeEnv ''docs/eight.md'' = Inr docMod \<and>
      getLastModified mtimeEnv (sourceEquivalent mtimeEnv ''./docs'' ''./src'' ''docs/eight.md'')
        = Inr srcMod \<and>
      number_subtract srcMod docMod < 86400) = False"
  unfolding m_srcEq m_glm both_instants m_diff by simp_all

lemma m_sources:
  "existsSync mtimeEnv (sourceEquivalent mtimeEnv ''./docs'' ''./src'' ''docs/one.md'')"
  "existsSync mtimeEnv (sourceEquivalent mtimeEnv ''./docs'' ''./src'' ''docs/eight.md'')"
  by (simp_all add: m_srcEq m_exists)

lemma m_filter:
  "filter (\<lambda>f. existsSync mtimeEnv (sourceEquivalent mtimeEnv ''./docs'' ''./src'' f) \<and>
       (\<exists>docMod srcMod. getLastModified mtimeEnv f = Inr docMod \<and>
          getLastModified mtimeEnv (sourceEquivalent mtimeEnv ''./docs'' ''./src'' f) = Inr srcMod \<and>
          86400 \<le> number_subtract srcMod docMod)) [''docs/one.md'', ''docs/eight.md'']
     = [''docs/eight.md'']"
  "filter (\<lambda>f. existsSync mtimeEnv (sourceEquivalent mtimeEnv ''./docs'' ''./src'' f) \<and>
       (\<exists>docMod srcMod. getLastModified mtimeEnv f = Inr docMod \<and>
          getLastModified mtimeEnv (sourceEquivalent mtimeEnv ''./docs'' ''./src'' f) = Inr srcMod \<and>
          number_subtract srcMod docMod < 86400)) [''docs/one.md'', ''docs/eight.md'']
     = [''docs/one.md'']"
  by (simp_all only: filter.simps m_sources m_late simp_thms if_True if_False)

lemma m_api: "\<not> isApiFile ''src/one.ts''" "\<not> isApiFile ''src/eight.ts''"
  by (simp_all add: isApiFile_def startsWith_def)

lemma m_run:
  "\<exists>r. analyzeSync mtimeEnv (parseArgs []) = Inr r
     \<and> outdated r =
        [\<lparr>doc = ''eight.md'', doc_source = ''eight.ts'', daysBehind = 7,
          doc_priority = Medium\<rparr>]"
  by (simp add: default_args analyzeSync_def m_files m_steps m_api recommend_def)

text \<open>
  Claim C2, as the code has it. A documentation file whose source counterpart exists gets
  an outdated entry exactly when \<^verbatim>\<open>Math.floor((srcMod - docMod) / 86400) > 0\<close>, and that is
  exactly when the difference \<^verbatim>\<open>srcMod - docMod\<close>, as the script computes it in doubles, is at
  least 86400 seconds; a file with a smaller computed difference gets no entry and is
  counted up to date. The entries are in the order of the documentation files. The
  computed difference of an instant and itself is 0, and the computed difference of two
  whole numbers of seconds, which is what version control supplies, is the exact one.
\<close>

theorem outdated_iff_full_day:
  assumes "analyzeSync env c = Inr r"
    and "docs c = Some docsDir" and "source c = Some sourceDir"
    and "findFiles env docsDir [''.md'', ''.mdx''] = Inr docFiles"
  shows "map doc (outdated r) =
           map (relative (cwd env) docsDir)
             (filter (\<lambda>f. existsSync env (sourceEquivalent env docsDir sourceDir f) \<and>
                 (\<exists>docMod srcMod. getLastModified env f = Inr docMod \<and>
                    getLastModified env (sourceEquivalent env docsDir sourceDir f) = Inr srcMod \<and>
                    86400 \<le> number_subtract srcMod docMod)) docFiles)
         \<and> outdatedDocs (summary r) = length (outdated r)
         \<and> upToDate (summary r) =
             length (filter (\<lambda>f. existsSync env (sourceEquivalent env docsDir sourceDir f) \<and>
                 (\<exists>docMod srcMod. getLastModified env f = Inr docMod \<and>
                    getLastModified env (sourceEquivalent env docsDir sourceDir f) = Inr srcMod \<and>
                    number_subtract srcMod docMod < 86400)) docFiles)
         \<and> (0 < \<lfloor>number_divide (number_subtract s d) 86400\<rfloor> \<longleftrightarrow> 86400 \<le> number_subtract s d)
         \<and> number_subtract t t = 0
         \<and> (\<bar>b - a\<bar> \<le> 2 ^ 53 \<longrightarrow> number_subtract (of_int b) (of_int a) = of_int b - of_int a)"
proof -
  from assms(1) obtain sourceDir' docsDir' sourceFiles docFiles' r1 where
    s: "source c = Some sourceDir'" and d: "docs c = Some docsDir'"
    and ff: "findFiles env docsDir' [''.md'', ''.mdx''] = Inr docFiles'"
    and loop1: "checkDocs env docsDir' sourceDir' docFiles'
       \<lparr>timestamp = now env, status = Synced,
        summary = \<lparr>totalSourceFiles = length sourceFiles, totalDocFiles = length docFiles',
                   outdatedDocs = 0, missingDocs = 0, upToDate = 0\<rparr>,
        outdated = [], missing = [], recommendations = []\<rparr> = Inr r1"
    and r: "r = recommend (fold (checkApiFile env docsDir' sourceDir') (filter isApiFile sourceFiles) r1)"
    by (rule analyzeSync_Inr)
  from s d ff assms(2-4) have same: "sourceDir' = sourceDir" "docsDir' = docsDir" "docFiles' = docFiles"
    by simp_all
  note eff = checkDocs_effect [OF loop1, unfolded same]
  have o: "outdated r = outdated r1" and u: "upToDate (summary r) = upToDate (summary r1)"
    and n: "outdatedDocs (summary r) = outdatedDocs (summary r1)"
    by (simp_all add: r recommend_effect fold_checkApiFile_effect)
  have m: "map doc (outdated r1) =
      map (relative (cwd env) docsDir) (filter (drifted env docsDir sourceDir) docFiles)"
    using eff by simp
  have len: "length (outdated r1) = length (filter (drifted env docsDir sourceDir) docFiles)"
    using arg_cong [OF m, of length] by simp
  have cnt: "outdatedDocs (summary r1) = length (filter (drifted env docsDir sourceDir) docFiles)"
    and up: "upToDate (summary r1) = length (filter (fresh env docsDir sourceDir) docFiles)"
    using eff by simp_all
  have lists: "map doc (outdated r) =
           map (relative (cwd env) docsDir)
             (filter (\<lambda>f. existsSync env (sourceEquivalent env docsDir sourceDir f) \<and>
                 (\<exists>docMod srcMod. getLastModified env f = Inr docMod \<and>
                    getLastModified env (sourceEquivalent env docsDir sourceDir f) = Inr srcMod \<and>
                    86400 \<le> number_subtract srcMod docMod)) docFiles)
         \<and> outdatedDocs (summary r) = length (outdated r)
         \<and> upToDate (summary r) =
             length (filter (\<lambda>f. existsSync env (sourceEquivalent env docsDir sourceDir f) \<and>
                 (\<exists>docMod srcMod. getLastModified env f = Inr docMod \<and>
                    getLastModified env (sourceEquivalent env docsDir sourceDir f) = Inr srcMod \<and>
                    number_subtract srcMod docMod < 86400)) docFiles)"
    using m len cnt up unfolding o u n drifted_def fresh_def by simp
  have test: "0 < \<lfloor>number_divide (number_subtract s d) 86400\<rfloor> \<longleftrightarrow> 86400 \<le> number_subtract s d"
    by (rule floor_days_pos)
  have whole: "\<bar>b - a\<bar> \<le> 2 ^ 53 \<longrightarrow> number_subtract (of_int b) (of_int a) = of_int b - of_int a"
    by (simp add: number_subtract_int)
  from lists test whole show ?thesis by simp
qed

text \<open>
  The claim as stated fails one second apart: \<^verbatim>\<open>docs/second.md\<close> has an existing source
  counterpart that is strictly newer, and the report holds no entry for it.
\<close>

theorem one_second_behind_not_outdated:
  "existsSync boundaryEnv (sourceEquivalent boundaryEnv ''./docs'' ''./src'' ''docs/second.md'')
   \<and> getLastModified boundaryEnv ''docs/second.md'' = Inr 1000000
   \<and> getLastModified boundaryEnv
         (sourceEquivalent boundaryEnv ''./docs'' ''./src'' ''docs/second.md'') = Inr 1000001
   \<and> analyzeSync boundaryEnv (parseArgs []) =
       Inr \<lparr>timestamp = ''2026-01-01T00:00:00.000Z'', status = Outdated,
            summary = \<lparr>totalSourceFiles = 3, totalDocFiles = 3, outdatedDocs = 1,
                       missingDocs = 0, upToDate = 2\<rparr>,
            outdated = [\<lparr>doc = ''day.md'', doc_source = ''day.ts'', daysBehind = 1,
                         doc_priority = Low\<rparr>],
            missing = [],
            recommendations = [\<lparr>rec_type = ''update'',
               rec_message = ''Update 1 outdated documentation file(s)'',
               rec_files = [''day.md'']\<rparr>]\<rparr>"
  by (simp add: default_args analyzeSync_def b_files b_steps b_api b_now b_srcEq b_exists b_glm
      recommend_def string_of_nat.simps)

text \<open>
  On the boundary example only \<^verbatim>\<open>day.md\<close> is outdated. On the example with millisecond
  times \<^verbatim>\<open>one.md\<close> is up to date although its source was modified 86400000 milliseconds
  later: the two quotients by 1000 are rounded, and their difference is less than 86400.
\<close>

theorem outdated_iff_full_day_witness:
  "(\<exists>r. analyzeSync boundaryEnv (parseArgs []) = Inr r
      \<and> map doc (outdated r) = [''day.md'']
      \<and> outdatedDocs (summary r) = 1 \<and> upToDate (summary r) = 2)
   \<and> (\<exists>r. analyzeSync mtimeEnv (parseArgs []) = Inr r
      \<and> map doc (outdated r) = [''eight.md'']
      \<and> outdatedDocs (summary r) = 1 \<and> upToDate (summary r) = 1)
   \<and> (0 < \<lfloor>number_divide (number_subtract 1086400 1000000) 86400\<rfloor>)
   \<and> number_subtract (of_int 1086400) (of_int 1000000) = 86400"
proof -
  have d: "docs (parseArgs []) = Some ''./docs''" and s: "source (parseArgs []) = Some ''./src''"
    by (simp_all add: default_args)
  from b_run obtain r where run: "analyzeSync boundaryEnv (parseArgs []) = Inr r" ..
  note b = outdated_iff_full_day
    [OF run d s b_files(1), where s = 1086400 and d = 1000000 and b = 1086400 and a = 1000000]
  from b have m: "map doc (outdated r) = [''day.md'']"
    and n: "outdatedDocs (summary r) = length (outdated r)"
    and u: "upToDate (summary r) = 2"
    by (simp_all add: b_srcEq b_exists b_glm b_rel b_diff)
  from m have "length (map doc (outdated r)) = length [''day.md'']" by (rule arg_cong)
  then have "length (outdated r) = 1" by simp
  with run m n u have 1: "\<exists>r. analyzeSync boundaryEnv (parseArgs []) = Inr r
      \<and> map doc (outdated r) = [''day.md'']
      \<and> outdatedDocs (summary r) = 1 \<and> upToDate (summary r) = 2"
    by (intro exI [of _ r]) simp
  from b have 3: "0 < \<lfloor>number_divide (number_subtract 1086400 1000000) 86400\<rfloor>"
    by (simp add: b_diff)
  from b have 4: "number_subtract (of_int 1086400) (of_int 1000000) = 86400"
    by simp
  from m_run obtain r' where run': "analyzeSync mtimeEnv (parseArgs []) = Inr r'" by auto
  note m = outdated_iff_full_day [OF run' d s m_files(1), unfolded m_filter]
  from m have m': "map doc (outdated r') = [''eight.md'']"
    and n': "outdatedDocs (summary r') = length (outdated r')"
    and u': "upToDate (summary r') = 1"
    by (simp_all add: m_rel)
  from m' have "length (map doc (outdated r')) = length [''eight.md'']" by (rule arg_cong)
  then have "length (outdated r') = 1" by simp
  with run' m' n' u' have 2: "\<exists>r. analyzeSync mtimeEnv (parseArgs []) = Inr r
      \<and> map doc (outdated r) = [''eight.md'']
      \<and> outdatedDocs (summary r) = 1 \<and> upToDate (summary r) = 1"
    by (intro exI [of _ r']) simp
  from 1 2 3 4 show ?thesis by (intro conjI)
qed

subsection \<open>The run on the tier example\<close>












subsection \<open>The run on the scenario\<close>

lemma s_files:
  "findFiles scenarioEnv ''./docs'' [''.md'', ''.mdx''] = Inr [''docs/api/users.mdx'']"
  "findFiles scenarioEnv ''./src'' [''.ts'', ''.tsx'', ''.js'', ''.jsx'', ''.py'']
     = Inr [''src/api/users.ts'', ''src/api/orders.ts'']"
  by (simp_all add: fs_defs scenarioEnv_def path_defs)

lemma s_quotients:
  "number_divide 172800000 1000 = 172800" "number_divide 864000000 1000 = 864000"
  by (simp_all add: number_divide_def)

lemma s_glm:
  "getLastModified scenarioEnv ''docs/api/users.mdx'' = Inr 172800"
  "getLastModified scenarioEnv ''src/api/users.ts'' = Inr 864000"
  by (simp_all add: getLastModified_def fs_defs scenarioEnv_def s_quotients)

lemma s_paths:
  "sourceEquivalent scenarioEnv ''./docs'' ''./src'' ''docs/api/users.mdx'' = ''src/api/users.ts''"
  "docEquivalent scenarioEnv ''./docs'' ''./src'' ''src/api/users.ts'' = ''docs/api/users.mdx''"
  "docEquivalent scenarioEnv ''./docs'' ''./src'' ''src/api/orders.ts'' = ''docs/api/orders.mdx''"
  by (simp_all add: sourceEquivalent_def docEquivalent_def replaceDocExt_def replaceSourceExt_def
      scenarioEnv_def path_defs)

lemma s_exists:
  "existsSync scenarioEnv ''src/api/users.ts''"
  "existsSync scenarioEnv ''docs/api/users.mdx''"
  "\<not> existsSync scenarioEnv ''docs/api/orders.mdx''"
  by (simp_all add: fs_defs scenarioEnv_def)

lemma s_rel:
  "relative (cwd scenarioEnv) ''./docs'' ''docs/api/users.mdx'' = ''api/users.mdx''"
  "relative (cwd scenarioEnv) ''./src'' ''src/api/users.ts'' = ''api/users.ts''"
  "relative (cwd scenarioEnv) ''./src'' ''src/api/orders.ts'' = ''api/orders.ts''"
  "relative (cwd scenarioEnv) ''./docs'' ''docs/api/orders.mdx'' = ''api/orders.mdx''"
  by (simp_all add: scenarioEnv_def path_defs)

lemma s_step:
  "checkDoc scenarioEnv ''./docs'' ''./src'' ''docs/api/users.mdx'' r
     = Inr (r\<lparr>outdated := outdated r @
              [\<lparr>doc = ''api/users.mdx'', doc_source = ''api/users.ts'', daysBehind = 8,
                doc_priority = High\<rparr>],
            summary := (summary r)\<lparr>outdatedDocs := outdatedDocs (summary r) + 1\<rparr>\<rparr>)"
  by (simp add: checkDoc_def s_paths s_exists s_glm number_subtract_def floor_number_divide
      outdatedEntry_def s_rel drift_priority_def)

lemma s_api:
  "isApiFile ''src/api/users.ts''" "isApiFile ''src/api/orders.ts''"
  "includes_str ''src/api/orders.ts'' ''/api/''"
  by (simp_all add: isApiFile_def startsWith_def)

lemma s_missing:
  "checkApiFile scenarioEnv ''./docs'' ''./src'' ''src/api/users.ts'' r = r"
  "checkApiFile scenarioEnv ''./docs'' ''./src'' ''src/api/orders.ts'' r
     = r\<lparr>missing := missing r @
            [\<lparr>missing_source = ''api/orders.ts'', expectedDoc = ''api/orders.mdx'',
              missing_priority = High\<rparr>],
          summary := (summary r)\<lparr>missingDocs := missingDocs (summary r) + 1\<rparr>\<rparr>"
  by (simp_all add: checkApiFile_def s_paths s_exists s_rel startsWith_def)

lemma s_run:
  "\<exists>r. analyzeSync scenarioEnv (parseArgs []) = Inr r
     \<and> outdated r =
         [\<lparr>doc = ''api/users.mdx'', doc_source = ''api/users.ts'', daysBehind = 8,
           doc_priority = High\<rparr>]
     \<and> missing r =
         [\<lparr>missing_source = ''api/orders.ts'', expectedDoc = ''api/orders.mdx'',
           missing_priority = High\<rparr>]"
  by (simp add: default_args analyzeSync_def s_files s_step s_api s_missing recommend_def)

text \<open>
  Claim C4. The status of a report is determined by its two lists: incomplete when an
  entry is missing, else outdated when an entry is outdated, else synced.
\<close>

theorem status_is_derived:
  assumes "analyzeSync env c = Inr r"
  shows "status r =
           (if missing r \<noteq> [] then Incomplete
            else if outdated r \<noteq> [] then Outdated
            else Synced)"
proof -
  from assms obtain sourceDir docsDir sourceFiles docFiles r1 where
    loop1: "checkDocs env docsDir sourceDir docFiles
       \<lparr>timestamp = now env, status = Synced,
        summary = \<lparr>totalSourceFiles = length sourceFiles, totalDocFiles = length docFiles,
                   outdatedDocs = 0, missingDocs = 0, upToDate = 0\<rparr>,
        outdated = [], missing = [], recommendations = []\<rparr> = Inr r1"
    and r: "r = recommend (fold (checkApiFile env docsDir sourceDir) (filter isApiFile sourceFiles) r1)"
    by (rule analyzeSync_Inr)
  let ?r2 = "fold (checkApiFile env docsDir sourceDir) (filter isApiFile sourceFiles) r1"
  from checkDocs_effect [OF loop1] have "status r1 = Synced" by simp
  then have "status ?r2 = Synced" by (simp add: fold_checkApiFile_effect)
  then show ?thesis by (simp add: r recommend_effect)
qed

theorem status_is_derived_witness:
  "\<exists>r. analyzeSync scenarioEnv (parseArgs []) = Inr r
     \<and> length (outdated r) = 1 \<and> length (missing r) = 1 \<and> status r = Incomplete"
proof -
  from s_run obtain r where run: "analyzeSync scenarioEnv (parseArgs []) = Inr r"
    and out: "length (outdated r) = 1" and mis: "length (missing r) = 1"
    by auto
  from mis have "missing r \<noteq> []" by auto
  with status_is_derived [OF run] have "status r = Incomplete" by simp
  with run out mis show ?thesis by (intro exI [of _ r] conjI)
qed

section \<open>The sync checker: the last-modified instant\<close>

text \<open>
  Claim C5. The provider must give an existing file that version control does not track
  its file system modification time. \<^verbatim>\<open>getLastModified\<close> reaches the fallback only when the
  \<^verbatim>\<open>git\<close> command fails, as it does without a repository; for an untracked file the command
  succeeds with empty output, \<^verbatim>\<open>parseInt\<close> gives \<^verbatim>\<open>NaN\<close>, and the result is 0, not the
  modification time of the file.
\<close>

theorem untracked_file_gets_epoch:
  "statSync untrackedEnv ''docs/api/users.mdx'' = Inr (File 172800000)
   \<and> git_log untrackedEnv ''docs/api/users.mdx'' = ExecOutput []
   \<and> getLastModified untrackedEnv ''docs/api/users.mdx'' = Inr 0
   \<and> git_log scenarioEnv ''docs/api/users.mdx'' = ExecFailed
   \<and> getLastModified scenarioEnv ''docs/api/users.mdx'' = Inr 172800"
proof -
  have "getLastModified untrackedEnv ''docs/api/users.mdx'' = Inr 0"
    by (simp add: getLastModified_def untrackedEnv_def parse_defs)
  moreover have "statSync untrackedEnv ''docs/api/users.mdx'' = Inr (File 172800000)"
    by (simp add: fs_defs untrackedEnv_def scenarioEnv_def)
  moreover have "git_log untrackedEnv ''docs/api/users.mdx'' = ExecOutput []"
    by (simp add: untrackedEnv_def)
  moreover have "git_log scenarioEnv ''docs/api/users.mdx'' = ExecFailed"
    by (simp add: scenarioEnv_def)
  ultimately show ?thesis using s_glm(1) by simp
qed

section \<open>Roots that do not exist\<close>

lemma findFiles_missing:
  "\<not> existsSync env dir \<Longrightarrow> \<exists>e. findFiles env dir extensions = Inl e"
  by (auto simp: findFiles_def existsSync_def split: sum.splits)

lemma analyzeSync_missing:
  assumes "source c = Some sourceDir" and "docs c = Some docsDir"
    and "\<not> existsSync env sourceDir \<or> \<not> existsSync env docsDir"
  shows "\<exists>e. analyzeSync env c = Inl e"
proof (cases "existsSync env sourceDir")
  case False
  then obtain e where "findFiles env sourceDir [''.ts'', ''.tsx'', ''.js'', ''.jsx'', ''.py''] = Inl e"
    using findFiles_missing by blast
  with assms(1,2) show ?thesis by (simp add: analyzeSync_def)
next
  case True
  with assms(3) have "\<not> existsSync env docsDir" by simp
  then obtain e where "findFiles env docsDir [''.md'', ''.mdx''] = Inl e"
    using findFiles_missing by blast
  with assms(1,2) show ?thesis by (simp add: analyzeSync_def split: sum.splits)
qed

text \<open>
  In the sync checker a root that does not exist is fatal: \<^verbatim>\<open>findFiles\<close> throws and returns
  no list, \<^verbatim>\<open>analyzeSync\<close> throws and returns no report, and \<^verbatim>\<open>main\<close>, when the docs root or
  the source root does not exist, prints which path was not found, exits with code 1 and
  writes no report.
\<close>

lemma sync_checker_missing_root:
  "(\<not> existsSync env dir \<longrightarrow> (\<exists>e. findFiles env dir extensions = Inl e))
   \<and> (source c = Some sourceDir \<and> docs c = Some docsDir
        \<and> (\<not> existsSync env sourceDir \<or> \<not> existsSync env docsDir)
       \<longrightarrow> (\<exists>e. analyzeSync env c = Inl e))
   \<and> (\<not> existsSyncOpt env (docs (parseArgs argv)) \<or> \<not> existsSyncOpt env (source (parseArgs argv))
       \<longrightarrow> ended (main env argv) = Exit 1
           \<and> written (main env argv) = None
           \<and> stderr (main env argv) =
               [if \<not> existsSyncOpt env (docs (parseArgs argv))
                then ''Error: Docs path not found: '' @ template (docs (parseArgs argv))
                else ''Error: Source path not found: '' @ template (source (parseArgs argv))])"
proof (intro conjI impI)
  assume "\<not> existsSync env dir"
  then show "\<exists>e. findFiles env dir extensions = Inl e" by (rule findFiles_missing)
next
  assume "source c = Some sourceDir \<and> docs c = Some docsDir
        \<and> (\<not> existsSync env sourceDir \<or> \<not> existsSync env docsDir)"
  then show "\<exists>e. analyzeSync env c = Inl e" by (auto intro: analyzeSync_missing)
next
  assume m: "\<not> existsSyncOpt env (docs (parseArgs argv))
    \<or> \<not> existsSyncOpt env (source (parseArgs argv))"
  then show "ended (main env argv) = Exit 1" by (auto simp: main_def Let_def)
  from m show "written (main env argv) = None" by (auto simp: main_def Let_def)
  from m show "stderr (main env argv) =
               [if \<not> existsSyncOpt env (docs (parseArgs argv))
                then ''Error: Docs path not found: '' @ template (docs (parseArgs argv))
                else ''Error: Source path not found: '' @ template (source (parseArgs argv))]"
    by (auto simp: main_def Let_def)
qed

text \<open>
  In the scenario the directory \<^verbatim>\<open>./no-such-dir\<close> does not exist, and neither do the empty
  path, a path through a directory that does not exist, and a file name followed by
  \<^verbatim>\<open>/\<close>; \<^verbatim>\<open>findFiles\<close> throws on each, and \<^verbatim>\<open>main\<close> reports the docs root and exits.
\<close>

lemma s_missing_dir:
  "\<not> existsSync scenarioEnv ''./no-such-dir''"
  "\<not> existsSync scenarioEnv []"
  "\<not> existsSync scenarioEnv ''no-such-dir/../docs''"
  "\<not> existsSync scenarioEnv ''docs/api/users.mdx/''"
  "existsSync scenarioEnv ''docs/''"
  "existsSync scenarioEnv ''docs/api/../api/users.mdx''"
  by (simp_all add: fs_defs scenarioEnv_def)

lemma s_missing_find:
  "findFiles scenarioEnv ''./no-such-dir'' [''.md'', ''.mdx''] = Inl (ENOENT ''./no-such-dir'')"
  "findFiles scenarioEnv [] [''.md'', ''.mdx''] = Inl (ENOENT [])"
  "findFiles scenarioEnv ''no-such-dir/../docs'' [''.md'', ''.mdx'']
     = Inl (ENOENT ''no-such-dir/../docs'')"
  "findFiles scenarioEnv ''docs/api/users.mdx/'' [''.md'', ''.mdx'']
     = Inl (ENOTDIR ''docs/api/users.mdx/'')"
  by (simp_all add: fs_defs scenarioEnv_def)

lemma s_args:
  "parseArgs [''--docs'', v]
     = \<lparr>docs = Some v, source = Some ''./src'', output_path = Some ''./sync-report.json''\<rparr>"
  by (simp add: parseArgs_def setKey_def startsWith_def)

lemma s_missing_main:
  "main scenarioEnv [''--docs'', ''./no-such-dir'']
     = \<lparr>ended = Exit 1, stderr = [''Error: Docs path not found: ./no-such-dir''],
        written = None\<rparr>"
  "main scenarioEnv [''--docs'', []]
     = \<lparr>ended = Exit 1, stderr = [''Error: Docs path not found: ''], written = None\<rparr>"
  "main scenarioEnv [''--docs'', ''no-such-dir/../docs'']
     = \<lparr>ended = Exit 1, stderr = [''Error: Docs path not found: no-such-dir/../docs''],
        written = None\<rparr>"
  by (simp_all add: main_def s_args existsSyncOpt_def s_missing_dir template_def)

text \<open>
  Claim C6. A file discovery or a drift detection over a root that does not exist must
  fail with a path-not-found condition, and must not return an empty file list or an empty
  report. The sync checker fails in this way. The analyzer does not: \<^verbatim>\<open>discoverFiles\<close> asks
  no path whether it exists, the patterns match nothing under a root that does not exist,
  \<^verbatim>\<open>discoverFiles\<close> returns the empty list, and \<^verbatim>\<open>analyze\<close> returns the analysis of an empty
  project. The test example of the project expects \<^verbatim>\<open>analyze('/nonexistent/path')\<close> to be
  rejected with \<^verbatim>\<open>Path not found\<close>.
\<close>

theorem discoverFiles_missing_root_empty:
  "\<not> pathExists exampleHost ''/nonexistent/path''
   \<and> discoverFiles exampleHost ''/nonexistent/path'' None defaultExcludes = Inr []
   \<and> analyze exampleHost ''/nonexistent/path'' exampleOptions =
       Inr \<lparr>proj_structure =
              \<lparr>root = ''/nonexistent/path'', directories = [], files = [], languages = [],
               frameworks = []\<rparr>,
            apis = [], components = [],
            documentation_needs =
              [\<lparr>need_type = ''missing'', need_file = ''README.md'',
                need_item = ''Project README'', need_priority = High,
                suggestion = ''Create comprehensive project overview''\<rparr>],
            suggested_navigation =
              [\<lparr>group = ''Getting Started'',
                pages = [''introduction'', ''quickstart'', ''installation'']\<rparr>,
               \<lparr>group = ''API Reference'',
                pages = [''api/overview'', ''api/authentication'', ''api/endpoints'']\<rparr>],
            metadata =
              \<lparr>meta_name = ''path'', meta_version = None, meta_description = None,
               meta_repository = None, meta_author = None\<rparr>\<rparr>"
proof -
  have d: "discoverFiles exampleHost ''/nonexistent/path'' None ex = Inr []" for ex
    by (simp add: discoverFiles_def defaultPatterns_def exampleHost_def)
  have p: "\<not> pathExists exampleHost p" if "p \<notin> set [''/proj'', ''/proj/src'', ''/proj/src/api'',
         ''/proj/src/api/users.ts'', ''/proj/src/Button.tsx'']" for p
    using that by (simp add: exampleHost_def)
  have j: "join [''/nonexistent/path'', ''package.json''] = ''/nonexistent/path/package.json''"
    "join [''/nonexistent/path'', ''pyproject.toml''] = ''/nonexistent/path/pyproject.toml''"
    by (simp_all add: path_defs)
  have b: "basename ''/nonexistent/path'' [] = ''path''"
    by (simp add: basename_def lastSegment_def stripTrailingSlashes_def)
  show ?thesis
    by (simp add: d p j b analyze_def exampleOptions_def buildStructure_def extractMetadata_def
        extractAPIs_def extractComponents_def analyzeDocumentationNeeds_def readmeNeed_def
        generateNavigation_def)
qed

section \<open>The validator: front matter and links\<close>













subsection \<open>The run on the example documentation tree\<close>




















end
